theory Spec2Isabelle
  imports Complex_Main "HOL-Library.AList" "HOL-Library.Multiset"
begin

section \<open>Floating-point values as the indicator code sees them\<close>

text \<open>
  The indicator engine of \<^verbatim>\<open>data_analyzer.py\<close> computes on pandas Series of
  float64.  A value is a finite number, plus or minus infinity, or NaN (which pandas
  also uses for a missing entry).  Rounding is abstracted: a finite value is a real
  number and arithmetic on finite values is exact.  The two zeros are one value, and a
  division by it behaves as a division by the positive zero.  Everything else follows
  IEEE 754: NaN is absorbing, \<open>inf - inf\<close>, \<open>0 * inf\<close>, \<open>0 / 0\<close> and \<open>inf / inf\<close> are NaN,
  a non-zero finite number divided by zero is an infinity, and every ordering
  comparison with NaN is false.
\<close>

datatype fl = Fin real | PInf | NInf | NaN

fun fneg :: "fl \<Rightarrow> fl" where
  "fneg (Fin x) = Fin (- x)"
| "fneg PInf = NInf"
| "fneg NInf = PInf"
| "fneg NaN = NaN"

fun fadd :: "fl \<Rightarrow> fl \<Rightarrow> fl" where
  "fadd NaN b = NaN"
| "fadd a NaN = NaN"
| "fadd (Fin x) (Fin y) = Fin (x + y)"
| "fadd PInf NInf = NaN"
| "fadd NInf PInf = NaN"
| "fadd PInf b = PInf"
| "fadd NInf b = NInf"
| "fadd (Fin x) b = b"

definition fsub :: "fl \<Rightarrow> fl \<Rightarrow> fl" where
  "fsub a b = fadd a (fneg b)"

fun fmul :: "fl \<Rightarrow> fl \<Rightarrow> fl" where
  "fmul NaN b = NaN"
| "fmul a NaN = NaN"
| "fmul (Fin x) (Fin y) = Fin (x * y)"
| "fmul (Fin x) PInf = (if x = 0 then NaN else if 0 < x then PInf else NInf)"
| "fmul (Fin x) NInf = (if x = 0 then NaN else if 0 < x then NInf else PInf)"
| "fmul PInf (Fin y) = (if y = 0 then NaN else if 0 < y then PInf else NInf)"
| "fmul NInf (Fin y) = (if y = 0 then NaN else if 0 < y then NInf else PInf)"
| "fmul PInf PInf = PInf"
| "fmul NInf NInf = PInf"
| "fmul PInf NInf = NInf"
| "fmul NInf PInf = NInf"

fun fdiv :: "fl \<Rightarrow> fl \<Rightarrow> fl" where
  "fdiv NaN b = NaN"
| "fdiv a NaN = NaN"
| "fdiv (Fin x) (Fin y) =
     (if y \<noteq> 0 then Fin (x / y)
      else if 0 < x then PInf else if x < 0 then NInf else NaN)"
| "fdiv (Fin x) b = Fin 0"
| "fdiv PInf (Fin y) = (if 0 \<le> y then PInf else NInf)"
| "fdiv NInf (Fin y) = (if 0 \<le> y then NInf else PInf)"
| "fdiv a b = NaN"

fun fsqrt :: "fl \<Rightarrow> fl" where
  "fsqrt (Fin x) = (if 0 \<le> x then Fin (sqrt x) else NaN)"
| "fsqrt PInf = PInf"
| "fsqrt a = NaN"

fun fabs :: "fl \<Rightarrow> fl" where
  "fabs (Fin x) = Fin \<bar>x\<bar>"
| "fabs NaN = NaN"
| "fabs a = PInf"

text \<open>The comparison \<open>a < b\<close> of two floats; \<open>a > b\<close> is \<open>flt b a\<close>.\<close>

fun flt :: "fl \<Rightarrow> fl \<Rightarrow> bool" where
  "flt NaN b = False"
| "flt a NaN = False"
| "flt (Fin x) (Fin y) = (x < y)"
| "flt a PInf = (a \<noteq> PInf)"
| "flt NInf b = (b \<noteq> NInf)"
| "flt a b = False"

definition fmax :: "fl \<Rightarrow> fl \<Rightarrow> fl" where
  "fmax a b = (if flt a b then b else a)"

definition isna :: "fl \<Rightarrow> bool" where
  "isna a = (a = NaN)"

fun is_fin :: "fl \<Rightarrow> bool" where
  "is_fin (Fin x) = True"
| "is_fin a = False"

fun the_fin :: "fl \<Rightarrow> real" where
  "the_fin (Fin x) = x"
| "the_fin a = 0"

section \<open>The pandas operations the engine calls\<close>

type_synonym series = "fl list"

text \<open>\<^verbatim>\<open>s.shift(n)\<close>: every value moves \<open>n\<close> places down, the first \<open>n\<close> places are NaN.\<close>

definition shift :: "nat \<Rightarrow> series \<Rightarrow> series" where
  "shift n xs = take (length xs) (replicate n NaN @ xs)"

text \<open>\<^verbatim>\<open>s.pct_change()\<close> is \<^verbatim>\<open>s / s.shift(1) - 1\<close>; \<^verbatim>\<open>s.diff()\<close> is \<^verbatim>\<open>s - s.shift(1)\<close>.\<close>

definition pct_change :: "series \<Rightarrow> series" where
  "pct_change xs = map2 (\<lambda>x p. fsub (fdiv x p) (Fin 1)) xs (shift 1 xs)"

definition diff :: "series \<Rightarrow> series" where
  "diff xs = map2 fsub xs (shift 1 xs)"

text \<open>Reductions skip NaN (\<open>skipna=True\<close>); infinities take part.\<close>

definition dropna :: "series \<Rightarrow> series" where
  "dropna xs = filter (\<lambda>v. \<not> isna v) xs"

primrec fsum :: "series \<Rightarrow> fl" where
  "fsum [] = Fin 0"
| "fsum (x # xs) = fadd x (fsum xs)"

text \<open>\<^verbatim>\<open>s.mean()\<close>: the sum of the values present over their count, NaN when none is.\<close>

definition mean :: "series \<Rightarrow> fl" where
  "mean xs =
     (let vs = dropna xs in
      if vs = [] then NaN else fdiv (fsum vs) (Fin (real (length vs))))"

text \<open>
  \<^verbatim>\<open>s.std()\<close>, with the default \<open>ddof=1\<close>: the square root of the sum of squared
  deviations from the mean over \<open>count - 1\<close>, NaN when fewer than two values are present.
\<close>

definition var :: "series \<Rightarrow> fl" where
  "var xs =
     (let vs = dropna xs; n = length vs in
      if n \<le> 1 then NaN
      else let avg = fdiv (fsum vs) (Fin (real n));
               sqr = map (\<lambda>v. fmul (fsub avg v) (fsub avg v)) vs
           in fdiv (fsum sqr) (Fin (real (n - 1))))"

definition std :: "series \<Rightarrow> fl" where
  "std xs = fsqrt (var xs)"

text \<open>
  \<open>mean\<close> and \<open>std\<close> are the two reductions in exact arithmetic.  pandas computes them
  in floating point, and the two agree up to rounding only: where the returns are equal
  or nearly equal, the exact deviation can be 0 while the computed one is a small
  positive number (the computed mean of equal values need not be that value), and the
  other way round.  On a constant price every step is exact (the returns, their sum,
  their mean and every deviation are 0).  A result that rests on whether a deviation
  is exactly 0 is stated for such series only, or for \<open>analyze_stock_with\<close> below, which
  takes the two reductions as they are.
\<close>

text \<open>
  \<^verbatim>\<open>s.rolling(window=w)\<close>: the window at index \<open>t\<close> holds the \<open>w\<close> values ending
  at \<open>t\<close>.  \<open>min_periods\<close> defaults to the window size, and pandas reads an infinity as a
  missing value here, so the result at \<open>t\<close> is NaN unless the window is complete and
  all its values are finite.
\<close>

definition window_at :: "nat \<Rightarrow> series \<Rightarrow> nat \<Rightarrow> real list option" where
  "window_at w xs t =
     (if t + 1 < w then None
      else let win = take w (drop (t + 1 - w) xs) in
           if list_all is_fin win then Some (map the_fin win) else None)"

definition rolling :: "nat \<Rightarrow> (real list \<Rightarrow> fl) \<Rightarrow> series \<Rightarrow> series" where
  "rolling w f xs =
     map (\<lambda>t. case window_at w xs t of None \<Rightarrow> NaN | Some win \<Rightarrow> f win) [0..<length xs]"

definition window_mean :: "real list \<Rightarrow> fl" where
  "window_mean win = (if win = [] then NaN else Fin (sum_list win / real (length win)))"

definition window_std :: "real list \<Rightarrow> fl" where
  "window_std win =
     (if length win \<le> 1 then NaN
      else let avg = sum_list win / real (length win) in
           Fin (sqrt ((\<Sum>v\<leftarrow>win. (v - avg)\<^sup>2) / real (length win - 1))))"

definition rolling_mean :: "nat \<Rightarrow> series \<Rightarrow> series" where
  "rolling_mean w xs = rolling w window_mean xs"

definition rolling_std :: "nat \<Rightarrow> series \<Rightarrow> series" where
  "rolling_std w xs = rolling w window_std xs"

text \<open>
  \<^verbatim>\<open>s.ewm(span=n, adjust=False).mean()\<close> on a series with no missing value:
  \<open>y[0] = x[0]\<close> and \<open>y[t] = (1 - \<alpha>) * y[t-1] + \<alpha> * x[t]\<close> with \<open>\<alpha> = 2 / (n + 1)\<close>.
  The loop carries the previous output.
\<close>

fun ewm_loop :: "real \<Rightarrow> real \<Rightarrow> real list \<Rightarrow> real list" where
  "ewm_loop \<alpha> prev [] = []"
| "ewm_loop \<alpha> prev (x # xs) =
     (let y = (1 - \<alpha>) * prev + \<alpha> * x in y # ewm_loop \<alpha> y xs)"

definition ewm_mean :: "nat \<Rightarrow> real list \<Rightarrow> real list" where
  "ewm_mean n xs =
     (case xs of [] \<Rightarrow> [] | x # rest \<Rightarrow> x # ewm_loop (2 / (real n + 1)) x rest)"

text \<open>
  \<^verbatim>\<open>s.where(cond, 0)\<close> keeps a value where the condition holds and puts 0 elsewhere
  (a comparison with NaN is false, so a NaN becomes 0 too).
\<close>

definition where_else0 :: "(fl \<Rightarrow> bool) \<Rightarrow> series \<Rightarrow> series" where
  "where_else0 cond xs = map (\<lambda>v. if cond v then v else Fin 0) xs"

text \<open>
  \<^verbatim>\<open>np.max(frame, axis=1)\<close> on a DataFrame is \<^verbatim>\<open>frame.max(axis=1)\<close>: the
  largest value of each row, NaN entries skipped, NaN for a row that has none.
\<close>

definition row_max :: "fl list \<Rightarrow> fl" where
  "row_max row = (case dropna row of [] \<Rightarrow> NaN | v # vs \<Rightarrow> foldl fmax v vs)"

section \<open>Exceptions\<close>

datatype py_error =
    ValueError string
  | KeyError string
  | IndexError
  | FileNotFoundError string
  | UnicodeDecodeError
  | YAMLError
  | YFException
  | RequestException
  | Exception string

text \<open>\<^verbatim>\<open>s.iloc[-1]\<close> raises IndexError on an empty series.\<close>

definition iloc_last :: "'a list \<Rightarrow> py_error + 'a" where
  "iloc_last xs = (if xs = [] then Inl IndexError else Inr (last xs))"

section \<open>The price frame\<close>

text \<open>
  One row of the provider's frame is a price bar of finite numbers.  The frame also
  holds the columns that were assigned to it later, by name, in the order of their
  first assignment.
\<close>

record PriceBar =
  Open :: real
  High :: real
  Low :: real
  Close :: real
  Volume :: real

record DataFrame =
  bars :: "PriceBar list"
  cols :: "(string \<times> series) list"

definition col_Close :: "DataFrame \<Rightarrow> series" where
  "col_Close df = map (\<lambda>b. Fin (Close b)) (bars df)"

definition col_High :: "DataFrame \<Rightarrow> series" where
  "col_High df = map (\<lambda>b. Fin (High b)) (bars df)"

definition col_Low :: "DataFrame \<Rightarrow> series" where
  "col_Low df = map (\<lambda>b. Fin (Low b)) (bars df)"

text \<open>\<^verbatim>\<open>df[name] = s\<close> for a derived column: replaced in place, or appended.\<close>

definition set_col :: "string \<Rightarrow> series \<Rightarrow> DataFrame \<Rightarrow> DataFrame" where
  "set_col name s df = df\<lparr>cols := AList.update name s (cols df)\<rparr>"

text \<open>\<^verbatim>\<open>df[name]\<close> raises KeyError for a column the frame does not have.\<close>

definition get_col :: "DataFrame \<Rightarrow> string \<Rightarrow> py_error + series" where
  "get_col df name =
     (if name = ''Open'' then Inr (map (\<lambda>b. Fin (Open b)) (bars df))
      else if name = ''High'' then Inr (col_High df)
      else if name = ''Low'' then Inr (col_Low df)
      else if name = ''Close'' then Inr (col_Close df)
      else if name = ''Volume'' then Inr (map (\<lambda>b. Fin (Volume b)) (bars df))
      else case map_of (cols df) name of
             None \<Rightarrow> Inl (KeyError name)
           | Some s \<Rightarrow> Inr s)"

text \<open>\<^verbatim>\<open>df[[n1, n2, ...]]\<close>: a new frame of the named columns, in that order.\<close>

fun select :: "DataFrame \<Rightarrow> string list \<Rightarrow> py_error + (string \<times> series) list" where
  "select df [] = Inr []"
| "select df (name # names) =
     (case get_col df name of
        Inl e \<Rightarrow> Inl e
      | Inr s \<Rightarrow> (case select df names of
                   Inl e \<Rightarrow> Inl e
                 | Inr rest \<Rightarrow> Inr ((name, s) # rest)))"

section \<open>The indicator engine: \<^verbatim>\<open>data_analyzer.py\<close>\<close>

text \<open>A news item of the provider; the publish time may be absent.\<close>

record article =
  providerPublishTime :: "real option"

text \<open>One value of the evidence dictionary: \<^verbatim>\<open>{'price_data': ..., 'news_data': ...}\<close>.\<close>

record stock_data =
  price_data :: DataFrame
  news_data :: "article list"

text \<open>
  The dictionary \<^verbatim>\<open>analyze_stock\<close> returns.  Its \<^verbatim>\<open>'price_data'\<close> entry (here
  \<open>price_data_out\<close>) is a new frame of six columns, \<^verbatim>\<open>'macd_data'\<close> a new frame of two.
\<close>

record analysis =
  latest_price :: fl
  volatility :: fl
  avg_daily_return :: fl
  sharpe_ratio :: fl
  macd :: fl
  macd_signal :: fl
  upper_band :: fl
  lower_band :: fl
  avg_bb_gap :: fl
  rsi :: fl
  atr :: fl
  avg_roc :: fl
  latest_roc :: fl
  price_data_out :: "(string \<times> series) list"
  macd_data :: "(string \<times> series) list"

text \<open>\<^verbatim>\<open>calculate_roc(price_data, n)\<close>, on the Close column.\<close>

definition calculate_roc :: "DataFrame \<Rightarrow> nat \<Rightarrow> series" where
  "calculate_roc df n =
     map2 (\<lambda>c s. fmul (fdiv (fsub c s) s) (Fin 100)) (col_Close df) (shift n (col_Close df))"

text \<open>
  The series \<^verbatim>\<open>analyze_stock\<close> computes, each named after the local variable or
  the column that holds it.  They read the provider's columns only: a derived column
  that the source reads back from the frame is the value it has just assigned.
\<close>

definition Daily_Return :: "DataFrame \<Rightarrow> series" where
  "Daily_Return df = pct_change (col_Close df)"

definition exp12 :: "DataFrame \<Rightarrow> real list" where
  "exp12 df = ewm_mean 12 (map Close (bars df))"

definition exp26 :: "DataFrame \<Rightarrow> real list" where
  "exp26 df = ewm_mean 26 (map Close (bars df))"

definition macd_line :: "DataFrame \<Rightarrow> real list" where
  "macd_line df = map2 (\<lambda>a b. a - b) (exp12 df) (exp26 df)"

definition signal :: "DataFrame \<Rightarrow> real list" where
  "signal df = ewm_mean 9 (macd_line df)"

definition SMA20 :: "DataFrame \<Rightarrow> series" where
  "SMA20 df = rolling_mean 20 (col_Close df)"

definition UpperBand :: "DataFrame \<Rightarrow> series" where
  "UpperBand df =
     map2 fadd (SMA20 df) (map (\<lambda>v. fmul v (Fin 2)) (rolling_std 20 (col_Close df)))"

definition LowerBand :: "DataFrame \<Rightarrow> series" where
  "LowerBand df =
     map2 fsub (SMA20 df) (map (\<lambda>v. fmul v (Fin 2)) (rolling_std 20 (col_Close df)))"

definition BB_Gap :: "DataFrame \<Rightarrow> series" where
  "BB_Gap df = map2 fsub (UpperBand df) (LowerBand df)"

definition delta :: "DataFrame \<Rightarrow> series" where
  "delta df = diff (col_Close df)"

definition gain :: "DataFrame \<Rightarrow> series" where
  "gain df = rolling_mean 14 (where_else0 (\<lambda>d. flt (Fin 0) d) (delta df))"

definition loss :: "DataFrame \<Rightarrow> series" where
  "loss df = rolling_mean 14 (map fneg (where_else0 (\<lambda>d. flt d (Fin 0)) (delta df)))"

definition rs :: "DataFrame \<Rightarrow> series" where
  "rs df = map2 fdiv (gain df) (loss df)"

definition RSI :: "DataFrame \<Rightarrow> series" where
  "RSI df = map (\<lambda>r. fsub (Fin 100) (fdiv (Fin 100) (fadd (Fin 1) r))) (rs df)"

definition high_low :: "DataFrame \<Rightarrow> series" where
  "high_low df = map2 fsub (col_High df) (col_Low df)"

definition high_close :: "DataFrame \<Rightarrow> series" where
  "high_close df = map fabs (map2 fsub (col_High df) (shift 1 (col_Close df)))"

definition low_close :: "DataFrame \<Rightarrow> series" where
  "low_close df = map fabs (map2 fsub (col_Low df) (shift 1 (col_Close df)))"

definition true_range :: "DataFrame \<Rightarrow> series" where
  "true_range df =
     map (\<lambda>(a, b, c). row_max [a, b, c])
       (zip (high_low df) (zip (high_close df) (low_close df)))"

definition ATR :: "DataFrame \<Rightarrow> series" where
  "ATR df = rolling_mean 14 (true_range df)"

text \<open>
  \<^verbatim>\<open>analyze_stock\<close>.  The function assigns columns to the frame it was given, so
  the model returns that frame as it is left behind, next to the outcome.  All series
  have the length of the frame, so the first \<^verbatim>\<open>.iloc[-1]\<close> that runs (on the rolling
  mean of the true range) raises IndexError exactly when the frame has no row, before
  the ROC column is assigned, and the later ones cannot raise.
\<close>

definition analyze_stock ::
  "string \<times> stock_data \<Rightarrow> DataFrame \<times> (py_error + string \<times> analysis)" where
  "analyze_stock stock_data_tuple =
     (let stock = fst stock_data_tuple;
          df0 = price_data (snd stock_data_tuple);
          df1 = set_col ''Daily Return'' (Daily_Return df0) df0;
          vol = std (Daily_Return df1);
          avg_ret = mean (Daily_Return df1);
          trading_days = length (bars df1);
          sharpe = fmul (fdiv avg_ret vol) (Fin (sqrt (real trading_days)));
          df2 = set_col ''SMA20'' (SMA20 df1) df1;
          df3 = set_col ''UpperBand'' (UpperBand df2) df2;
          df4 = set_col ''LowerBand'' (LowerBand df3) df3;
          df5 = set_col ''BB_Gap'' (BB_Gap df4) df4;
          avg_gap = mean (BB_Gap df5);
          df6 = set_col ''RSI'' (RSI df5) df5
      in case iloc_last (ATR df6) of
           Inl e \<Rightarrow> (df6, Inl e)
         | Inr atr_v \<Rightarrow>
            (let roc = calculate_roc df6 12;
                 df7 = set_col ''ROC'' roc df6
             in case select df7 [''Close'', ''Daily Return'', ''RSI'', ''UpperBand'', ''LowerBand'', ''ROC''] of
                  Inl e \<Rightarrow> (df7, Inl e)
                | Inr chart_cols \<Rightarrow>
                   (df7, Inr (stock,
                     \<lparr> latest_price = last (col_Close df7),
                       volatility = vol,
                       avg_daily_return = avg_ret,
                       sharpe_ratio = sharpe,
                       macd = Fin (last (macd_line df7)),
                       macd_signal = Fin (last (signal df7)),
                       upper_band = last (UpperBand df7),
                       lower_band = last (LowerBand df7),
                       avg_bb_gap = avg_gap,
                       rsi = last (RSI df7),
                       atr = atr_v,
                       avg_roc = mean roc,
                       latest_roc = last roc,
                       price_data_out = chart_cols,
                       macd_data = [(''MACD'', map Fin (macd_line df7)),
                                    (''Signal'', map Fin (signal df7))] \<rparr>))))"

text \<open>
  The same function, with the reductions of the library as they are.
  \<^verbatim>\<open>Series.mean\<close> and \<^verbatim>\<open>Series.std\<close> are library code that rounds, so here they
  are parameters: any two functions from a series to a value can stand for them.
  \<open>analyze_stock\<close> is the case of the exact ones.
\<close>

definition analyze_stock_with ::
  "(series \<Rightarrow> fl) \<Rightarrow> (series \<Rightarrow> fl) \<Rightarrow> string \<times> stock_data
     \<Rightarrow> DataFrame \<times> (py_error + string \<times> analysis)" where
  "analyze_stock_with series_mean series_std stock_data_tuple =
     (let stock = fst stock_data_tuple;
          df0 = price_data (snd stock_data_tuple);
          df1 = set_col ''Daily Return'' (Daily_Return df0) df0;
          vol = series_std (Daily_Return df1);
          avg_ret = series_mean (Daily_Return df1);
          trading_days = length (bars df1);
          sharpe = fmul (fdiv avg_ret vol) (Fin (sqrt (real trading_days)));
          df2 = set_col ''SMA20'' (SMA20 df1) df1;
          df3 = set_col ''UpperBand'' (UpperBand df2) df2;
          df4 = set_col ''LowerBand'' (LowerBand df3) df3;
          df5 = set_col ''BB_Gap'' (BB_Gap df4) df4;
          avg_gap = series_mean (BB_Gap df5);
          df6 = set_col ''RSI'' (RSI df5) df5
      in case iloc_last (ATR df6) of
           Inl e \<Rightarrow> (df6, Inl e)
         | Inr atr_v \<Rightarrow>
            (let roc = calculate_roc df6 12;
                 df7 = set_col ''ROC'' roc df6
             in case select df7 [''Close'', ''Daily Return'', ''RSI'', ''UpperBand'', ''LowerBand'', ''ROC''] of
                  Inl e \<Rightarrow> (df7, Inl e)
                | Inr chart_cols \<Rightarrow>
                   (df7, Inr (stock,
                     \<lparr> latest_price = last (col_Close df7),
                       volatility = vol,
                       avg_daily_return = avg_ret,
                       sharpe_ratio = sharpe,
                       macd = Fin (last (macd_line df7)),
                       macd_signal = Fin (last (signal df7)),
                       upper_band = last (UpperBand df7),
                       lower_band = last (LowerBand df7),
                       avg_bb_gap = avg_gap,
                       rsi = last (RSI df7),
                       atr = atr_v,
                       avg_roc = series_mean roc,
                       latest_roc = last roc,
                       price_data_out = chart_cols,
                       macd_data = [(''MACD'', map Fin (macd_line df7)),
                                    (''Signal'', map Fin (signal df7))] \<rparr>))))"

text \<open>
  \<^verbatim>\<open>analyze_clues\<close>.  A Python dictionary is its list of items, keys distinct, in
  insertion order; \<^verbatim>\<open>d[k] = v\<close> is \<open>AList.update\<close>.  \<^verbatim>\<open>pool.map\<close> hands every
  item to a worker process, which works on a copy (so the frames the workers leave
  behind are dropped), and returns the results in the order of the items, or raises the
  first exception a worker raised.  The loop then stores each result under its ticker.
\<close>

type_synonym evidence = "(string \<times> stock_data) list"

fun pool_map :: "('a \<Rightarrow> py_error + 'b) \<Rightarrow> 'a list \<Rightarrow> py_error + 'b list" where
  "pool_map f [] = Inr []"
| "pool_map f (x # xs) =
     (case f x of
        Inl e \<Rightarrow> Inl e
      | Inr y \<Rightarrow> (case pool_map f xs of Inl e \<Rightarrow> Inl e | Inr ys \<Rightarrow> Inr (y # ys)))"

fun store_results ::
  "(string \<times> analysis) list \<Rightarrow> (string \<times> analysis) list \<Rightarrow> (string \<times> analysis) list" where
  "store_results analyzed_data [] = analyzed_data"
| "store_results analyzed_data ((stock, result) # results) =
     store_results (AList.update stock result analyzed_data) results"

definition analyze_clues :: "evidence \<Rightarrow> py_error + (string \<times> analysis) list" where
  "analyze_clues ev =
     (case pool_map (\<lambda>item. snd (analyze_stock item)) ev of
        Inl e \<Rightarrow> Inl e
      | Inr results \<Rightarrow> Inr (store_results [] results))"

section \<open>The evidence gatherer: \<^verbatim>\<open>data_gatherer.py\<close>\<close>

text \<open>
  The market-data provider is outside the repository: \<open>history\<close> is the outcome of
  \<^verbatim>\<open>yf.Ticker(stock).history(start=..., end=...)\<close> and \<open>news\<close> that of
  \<^verbatim>\<open>ticker.news\<close>, each a value or the exception raised.  \<open>now\<close> is the clock
  reading, in seconds.
\<close>

record provider =
  history :: "string \<Rightarrow> string \<Rightarrow> string \<Rightarrow> py_error + DataFrame"
  news :: "string \<Rightarrow> py_error + article list"

text \<open>What the gatherer writes to the log, one constructor per message, with the ticker.\<close>

datatype gatherer_log =
    Investigating string
  | Stored string
  | YFinanceError string
  | NetworkError string
  | DataError string
  | UnexpectedError string

text \<open>The news of the last 30 days; reading the publish time of an item without one raises.\<close>

fun filter_news :: "real \<Rightarrow> article list \<Rightarrow> py_error + article list" where
  "filter_news now [] = Inr []"
| "filter_news now (a # as) =
     (case providerPublishTime a of
        None \<Rightarrow> Inl (KeyError ''providerPublishTime'')
      | Some ts \<Rightarrow>
         (case filter_news now as of
            Inl e \<Rightarrow> Inl e
          | Inr kept \<Rightarrow> Inr (if now - 30 * 86400 \<le> ts \<and> ts \<le> now then a # kept else kept)))"

text \<open>The body of the \<^verbatim>\<open>try\<close> block for one ticker.\<close>

definition fetch_stock :: "provider \<Rightarrow> real \<Rightarrow> string \<Rightarrow> string \<Rightarrow> string \<Rightarrow> py_error + stock_data" where
  "fetch_stock p now start_date end_date stock =
     (case history p stock start_date end_date of
        Inl e \<Rightarrow> Inl e
      | Inr data \<Rightarrow>
         if bars data = [] then Inl (ValueError (''No data available for '' @ stock))
         else (case news p stock of
                 Inl e \<Rightarrow> Inl e
               | Inr items \<Rightarrow>
                  (case filter_news now items of
                     Inl e \<Rightarrow> Inl e
                   | Inr filtered_news \<Rightarrow> Inr \<lparr>price_data = data, news_data = filtered_news\<rparr>)))"

text \<open>The \<^verbatim>\<open>except\<close> clauses, in their order: each logs and swallows the exception.\<close>

fun log_failure :: "string \<Rightarrow> py_error \<Rightarrow> gatherer_log" where
  "log_failure stock YFException = YFinanceError stock"
| "log_failure stock RequestException = NetworkError stock"
| "log_failure stock (ValueError m) = DataError stock"
| "log_failure stock UnicodeDecodeError = DataError stock"
| "log_failure stock e = UnexpectedError stock"

fun collect_loop ::
  "provider \<Rightarrow> real \<Rightarrow> string \<Rightarrow> string \<Rightarrow> string list \<Rightarrow> evidence \<times> gatherer_log list
     \<Rightarrow> evidence \<times> gatherer_log list" where
  "collect_loop p now start_date end_date [] st = st"
| "collect_loop p now start_date end_date (stock # stocks) (evidence_locker, logged) =
     (case fetch_stock p now start_date end_date stock of
        Inl e \<Rightarrow>
          collect_loop p now start_date end_date stocks
            (evidence_locker, logged @ [Investigating stock, log_failure stock e])
      | Inr entry \<Rightarrow>
          collect_loop p now start_date end_date stocks
            (AList.update stock entry evidence_locker, logged @ [Investigating stock, Stored stock]))"

definition collect_evidence ::
  "provider \<Rightarrow> real \<Rightarrow> string list \<Rightarrow> string \<Rightarrow> string \<Rightarrow> gatherer_log list \<times> (py_error + evidence)" where
  "collect_evidence p now stocks start_date end_date =
     (let (evidence_locker, logged) = collect_loop p now start_date end_date stocks ([], []) in
      (logged,
       if evidence_locker = []
       then Inl (Exception ''No data could be retrieved for any of the stocks.'')
       else Inr evidence_locker))"

section \<open>The configuration: \<^verbatim>\<open>config.py\<close> and the start of \<^verbatim>\<open>main.py\<close>\<close>

text \<open>
  A value of the parsed YAML file, and the configuration: the mapping at its top level.
  An unquoted date is parsed to a date object (\<open>YDate\<close>), which is not a string.
\<close>

datatype yaml =
    YNull
  | YBool bool
  | YInt int
  | YStr string
  | YDate string
  | YList "yaml list"
  | YMap "(string \<times> yaml) list"

type_synonym config = "string \<rightharpoonup> yaml"

text \<open>
  The messages of the exceptions are kept, without the quotation marks inside them.
  Python's truth value of a configuration value (\<^verbatim>\<open>not v\<close> is its negation).
\<close>

fun truthy :: "yaml \<Rightarrow> bool" where
  "truthy YNull = False"
| "truthy (YBool b) = b"
| "truthy (YInt i) = (i \<noteq> 0)"
| "truthy (YStr s) = (s \<noteq> [])"
| "truthy (YDate s) = True"
| "truthy (YList vs) = (vs \<noteq> [])"
| "truthy (YMap kvs) = (kvs \<noteq> [])"

fun check_required :: "string list \<Rightarrow> config \<Rightarrow> py_error + unit" where
  "check_required [] cfg = Inr ()"
| "check_required (key # keys) cfg =
     (if cfg key = None then Inl (ValueError (''Missing required configuration key: '' @ key))
      else check_required keys cfg)"

fun nonempty_list :: "yaml \<Rightarrow> bool" where
  "nonempty_list (YList vs) = (vs \<noteq> [])"
| "nonempty_list v = False"

definition validate_config :: "config \<Rightarrow> py_error + unit" where
  "validate_config cfg =
     (case check_required [''stocks'', ''start_date'', ''end_date'', ''report_format''] cfg of
        Inl e \<Rightarrow> Inl e
      | Inr u \<Rightarrow>
         (case cfg ''stocks'' of
            None \<Rightarrow> Inl (KeyError ''stocks'')
          | Some stocks \<Rightarrow>
             if \<not> nonempty_list stocks then Inl (ValueError ''stocks must be a non-empty list'')
             else (case cfg ''report_format'' of
                     None \<Rightarrow> Inl (KeyError ''report_format'')
                   | Some fmt \<Rightarrow>
                      if fmt \<noteq> YStr ''pdf'' \<and> fmt \<noteq> YStr ''txt''
                      then Inl (ValueError ''report_format must be either pdf or txt'')
                      else Inr ())))"

text \<open>
  \<^verbatim>\<open>load_config\<close>: \<open>read enc\<close> is the outcome of opening the file with encoding
  \<open>enc\<close> and parsing it.  Only a decoding error moves on to the next encoding.
\<close>

fun try_encodings :: "(string \<Rightarrow> py_error + config) \<Rightarrow> string list \<Rightarrow> py_error + config" where
  "try_encodings read [] =
     Inl (ValueError ''Unable to read the config file with any of the attempted encodings.'')"
| "try_encodings read (encoding # encodings) =
     (case read encoding of
        Inl UnicodeDecodeError \<Rightarrow> try_encodings read encodings
      | Inl e \<Rightarrow> Inl e
      | Inr cfg \<Rightarrow> (case validate_config cfg of Inl e \<Rightarrow> Inl e | Inr u \<Rightarrow> Inr cfg))"

definition load_config :: "(string \<Rightarrow> py_error + config) \<Rightarrow> py_error + config" where
  "load_config read = try_encodings read [''utf-8'', ''iso-8859-1'', ''windows-1252'']"

text \<open>
  The two defaults of \<^verbatim>\<open>investigate_finances\<close>: \<open>today\<close> and \<open>year_ago\<close> are the
  current date and the date 365 days before it, formatted.
\<close>

definition missing_or_empty :: "config \<Rightarrow> string \<Rightarrow> bool" where
  "missing_or_empty cfg key = (case cfg key of None \<Rightarrow> True | Some v \<Rightarrow> \<not> truthy v)"

definition default_dates :: "string \<Rightarrow> string \<Rightarrow> config \<Rightarrow> config" where
  "default_dates today year_ago case_details =
     (let c1 = (if missing_or_empty case_details ''end_date''
                then case_details(''end_date'' \<mapsto> YStr today) else case_details)
      in if missing_or_empty c1 ''start_date'' then c1(''start_date'' \<mapsto> YStr year_ago) else c1)"

text \<open>
  \<^verbatim>\<open>investigate_finances\<close>: the configuration stage, then steps 2 to 6, which are
  the parameter \<open>run\<close> here (its value says whether they ended without an exception).
  Any exception makes the function return False.
\<close>

definition investigate_finances ::
  "(string \<Rightarrow> py_error + config) \<Rightarrow> string \<Rightarrow> string \<Rightarrow> (config \<Rightarrow> bool) \<Rightarrow> bool" where
  "investigate_finances read today year_ago run =
     (case load_config read of
        Inl e \<Rightarrow> False
      | Inr case_details \<Rightarrow> run (default_dates today year_ago case_details))"

section \<open>The report compiler: \<^verbatim>\<open>report_compiler.py\<close>\<close>
















section \<open>Reference notions\<close>

text \<open>
  The formulas of the specification, on real numbers, against which the series of the
  engine are compared.  The Daily Return at bar \<open>t + 1\<close> is
  \<open>(close[t+1] - close[t]) / close[t]\<close>.
\<close>

definition daily_returns :: "real list \<Rightarrow> real list" where
  "daily_returns cs = map (\<lambda>t. (cs ! Suc t - cs ! t) / cs ! t) [0..<length cs - 1]"

definition sample_mean :: "real list \<Rightarrow> real" where
  "sample_mean xs = sum_list xs / real (length xs)"

text \<open>The sample standard deviation (\<open>ddof = 1\<close>).\<close>

definition sample_std :: "real list \<Rightarrow> real" where
  "sample_std xs = sqrt ((\<Sum>x\<leftarrow>xs. (x - sample_mean xs)\<^sup>2) / (real (length xs) - 1))"

text \<open>
  The exponential moving average with smoothing factor \<open>\<alpha>\<close>, seeded with the first
  input: \<open>ema[0] = x[0]\<close>, \<open>ema[t] = \<alpha> * x[t] + (1 - \<alpha>) * ema[t-1]\<close>.
\<close>

fun ema :: "real \<Rightarrow> (nat \<Rightarrow> real) \<Rightarrow> nat \<Rightarrow> real" where
  "ema \<alpha> x 0 = x 0"
| "ema \<alpha> x (Suc t) = \<alpha> * x (Suc t) + (1 - \<alpha>) * ema \<alpha> x t"

text \<open>
  The upward and the downward move of the close at bar \<open>i\<close>: the positive change, and
  the size of the negative change; a change in the other direction counts 0, and so
  does the first bar, which has no change.  The average gain and loss at \<open>t\<close> are their
  means over the 14 bars ending at \<open>t\<close>.
\<close>

definition up_move :: "DataFrame \<Rightarrow> nat \<Rightarrow> real" where
  "up_move df i = (if i = 0 then 0 else max (Close (bars df ! i) - Close (bars df ! (i - 1))) 0)"

definition down_move :: "DataFrame \<Rightarrow> nat \<Rightarrow> real" where
  "down_move df i = (if i = 0 then 0 else max (Close (bars df ! (i - 1)) - Close (bars df ! i)) 0)"

definition avg_gain :: "DataFrame \<Rightarrow> nat \<Rightarrow> real" where
  "avg_gain df t = (\<Sum>i = t - 13..t. up_move df i) / 14"

definition avg_loss :: "DataFrame \<Rightarrow> nat \<Rightarrow> real" where
  "avg_loss df t = (\<Sum>i = t - 13..t. down_move df i) / 14"

text \<open>
  The True Range of bar \<open>t\<close>: the largest of high - low, |high - previous close| and
  |low - previous close|, where the first bar, having no previous close, keeps
  high - low alone.
\<close>

definition tr_value :: "DataFrame \<Rightarrow> nat \<Rightarrow> real" where
  "tr_value df t =
     (let b = bars df ! t in
      if t = 0 then High b - Low b
      else let prev_close = Close (bars df ! (t - 1)) in
           max (High b - Low b) (max \<bar>High b - prev_close\<bar> \<bar>Low b - prev_close\<bar>))"

text \<open>The frame as \<^verbatim>\<open>analyze_stock\<close> leaves it when it returns: seven columns assigned.\<close>

definition frame_after :: "DataFrame \<Rightarrow> DataFrame" where
  "frame_after df =
     set_col ''ROC'' (calculate_roc df 12) (set_col ''RSI'' (RSI df) (set_col ''BB_Gap'' (BB_Gap df)
       (set_col ''LowerBand'' (LowerBand df) (set_col ''UpperBand'' (UpperBand df)
         (set_col ''SMA20'' (SMA20 df) (set_col ''Daily Return'' (Daily_Return df) df))))))"










section \<open>Example inputs\<close>

definition bar :: "real \<Rightarrow> real \<Rightarrow> real \<Rightarrow> PriceBar" where
  "bar h l c = \<lparr>Open = c, High = h, Low = l, Close = c, Volume = 0\<rparr>"

definition frame_of :: "PriceBar list \<Rightarrow> stock_data" where
  "frame_of bs = \<lparr>price_data = \<lparr>bars = bs, cols = []\<rparr>, news_data = []\<rparr>"

text \<open>Three bars whose close doubles every day.\<close>

definition doubling :: stock_data where
  "doubling = frame_of [bar 1 1 1, bar 2 2 2, bar 4 4 4]"


text \<open>Thirty bars rising by 1 a day from a close of 100 to 129, each with a range of 2.\<close>

definition rising :: stock_data where
  "rising = frame_of (map (\<lambda>i. bar (real i + 101) (real i + 99) (real i + 100)) [0..<30])"

text \<open>A series of \<open>n\<close> bars that all have the price \<open>c\<close>.\<close>

definition flat :: "real \<Rightarrow> nat \<Rightarrow> stock_data" where
  "flat c n = frame_of (replicate n (bar c c c))"

text \<open>
  A provider that has the doubling series for every ticker but \<open>BBB\<close>, for which the
  request fails, and no news.
\<close>

definition example_provider :: provider where
  "example_provider =
     \<lparr>history = (\<lambda>stock start_date end_date.
          if stock = ''BBB'' then Inl RequestException else Inr (price_data doubling)),
      news = (\<lambda>stock. Inr [])\<rparr>"

text \<open>
  Two configurations: one that leaves the two date keys out, one that has them with
  empty values.
\<close>

definition config_without_dates :: config where
  "config_without_dates = [''stocks'' \<mapsto> YList [YStr ''AAPL''], ''report_format'' \<mapsto> YStr ''pdf'']"

definition config_empty_dates :: config where
  "config_empty_dates =
     [''stocks'' \<mapsto> YList [YStr ''AAPL''], ''start_date'' \<mapsto> YNull, ''end_date'' \<mapsto> YStr '''',
      ''report_format'' \<mapsto> YStr ''pdf'']"


section \<open>Basic facts about the model\<close>

lemma ne_of_length: "length xs = length ys \<Longrightarrow> ys \<noteq> [] \<Longrightarrow> xs \<noteq> []"
  by auto

text \<open>Assigning a column leaves the bars, and so every series computed from them, as they are.\<close>

lemma bars_set_col [simp]: "bars (set_col n s df) = bars df"
  by (simp add: set_col_def)

lemma cols_set_col: "cols (set_col n s df) = AList.update n s (cols df)"
  by (simp add: set_col_def)

lemma col_Close_set_col [simp]: "col_Close (set_col n s df) = col_Close df"
  by (simp add: col_Close_def)
lemma col_High_set_col [simp]: "col_High (set_col n s df) = col_High df"
  by (simp add: col_High_def)
lemma col_Low_set_col [simp]: "col_Low (set_col n s df) = col_Low df"
  by (simp add: col_Low_def)

lemma series_set_col [simp]:
  "Daily_Return (set_col n s df) = Daily_Return df"
  "macd_line (set_col n s df) = macd_line df"
  "signal (set_col n s df) = signal df"
  "SMA20 (set_col n s df) = SMA20 df"
  "UpperBand (set_col n s df) = UpperBand df"
  "LowerBand (set_col n s df) = LowerBand df"
  "BB_Gap (set_col n s df) = BB_Gap df"
  "RSI (set_col n s df) = RSI df"
  "ATR (set_col n s df) = ATR df"
  "calculate_roc (set_col n s df) k = calculate_roc df k"
  by (simp_all add: Daily_Return_def macd_line_def exp12_def exp26_def signal_def SMA20_def
      UpperBand_def LowerBand_def BB_Gap_def RSI_def rs_def gain_def loss_def delta_def ATR_def
      true_range_def high_low_def high_close_def low_close_def calculate_roc_def)

lemma length_shift [simp]: "length (shift n xs) = length xs"
  by (simp add: shift_def)

lemma length_rolling [simp]: "length (rolling w f xs) = length xs"
  by (simp add: rolling_def)

lemma length_col [simp]:
  "length (col_Close df) = length (bars df)"
  "length (col_High df) = length (bars df)"
  "length (col_Low df) = length (bars df)"
  by (simp_all add: col_Close_def col_High_def col_Low_def)

lemma length_true_range [simp]: "length (true_range df) = length (bars df)"
  by (simp add: true_range_def high_low_def high_close_def low_close_def)

lemma length_ATR [simp]: "length (ATR df) = length (bars df)"
  by (simp add: ATR_def rolling_mean_def)

lemma select_chart:
  "select (set_col ''ROC'' roc (set_col ''RSI'' r (set_col ''BB_Gap'' g (set_col ''LowerBand'' l
      (set_col ''UpperBand'' u (set_col ''SMA20'' m (set_col ''Daily Return'' dr df)))))))
     [''Close'', ''Daily Return'', ''RSI'', ''UpperBand'', ''LowerBand'', ''ROC'']
   = Inr [(''Close'', col_Close df), (''Daily Return'', dr), (''RSI'', r), (''UpperBand'', u),
          (''LowerBand'', l), (''ROC'', roc)]"
  by (simp add: get_col_def set_col_def update_conv col_Close_def)

lemma analyze_stock_nonempty:
  assumes "bars (price_data d) \<noteq> []"
  shows "analyze_stock (s, d) =
    (frame_after (price_data d), Inr (s,
       \<lparr> latest_price = last (col_Close (price_data d)),
         volatility = std (Daily_Return (price_data d)),
         avg_daily_return = mean (Daily_Return (price_data d)),
         sharpe_ratio = fmul (fdiv (mean (Daily_Return (price_data d))) (std (Daily_Return (price_data d))))
                          (Fin (sqrt (real (length (bars (price_data d)))))),
         macd = Fin (last (macd_line (price_data d))),
         macd_signal = Fin (last (signal (price_data d))),
         upper_band = last (UpperBand (price_data d)),
         lower_band = last (LowerBand (price_data d)),
         avg_bb_gap = mean (BB_Gap (price_data d)),
         rsi = last (RSI (price_data d)),
         atr = last (ATR (price_data d)),
         avg_roc = mean (calculate_roc (price_data d) 12),
         latest_roc = last (calculate_roc (price_data d) 12),
         price_data_out = [(''Close'', col_Close (price_data d)), (''Daily Return'', Daily_Return (price_data d)),
            (''RSI'', RSI (price_data d)), (''UpperBand'', UpperBand (price_data d)),
            (''LowerBand'', LowerBand (price_data d)), (''ROC'', calculate_roc (price_data d) 12)],
         macd_data = [(''MACD'', map Fin (macd_line (price_data d))),
                      (''Signal'', map Fin (signal (price_data d)))] \<rparr>))"
proof -
  have ne: "ATR (price_data d) \<noteq> []"
    using assms by (metis length_ATR length_0_conv)
  show ?thesis
    unfolding analyze_stock_def Let_def
    by (simp add: iloc_last_def ne select_chart frame_after_def del: select.simps)
qed

lemma analyze_stock_empty:
  assumes "bars (price_data d) = []"
  shows "snd (analyze_stock (s, d)) = Inl IndexError"
proof -
  have "ATR (price_data d) = []"
    using assms by (metis length_ATR length_0_conv)
  then show ?thesis
    unfolding analyze_stock_def Let_def by (simp add: iloc_last_def)
qed

text \<open>Shifted series and rolling windows, index by index.\<close>

lemma shift_nth: "t < length xs \<Longrightarrow> shift n xs ! t = (if t < n then NaN else xs ! (t - n))"
  by (simp add: shift_def nth_append)

lemma rolling_nth:
  "t < length xs \<Longrightarrow>
   rolling w f xs ! t = (case window_at w xs t of None \<Rightarrow> NaN | Some win \<Rightarrow> f win)"
  by (simp add: rolling_def)

lemma window_at_Fin:
  "window_at w (map Fin vs) t = (if t + 1 < w then None else Some (take w (drop (t + 1 - w) vs)))"
  by (simp add: window_at_def list_all_iff take_map drop_map comp_def)

lemma take_drop_upt:
  assumes "k + w \<le> length vs"
  shows "take w (drop k vs) = map (\<lambda>i. vs ! i) [k..<k + w]"
  using assms by (intro nth_equalityI) (simp_all add: add.commute)

lemma sum_list_window:
  assumes "k + w \<le> length vs"
  shows "sum_list (take w (drop k vs)) = (\<Sum>i = k..<k + w. vs ! i)"
  using assms by (simp only: take_drop_upt interv_sum_list_conv_sum_set_nat set_upt)

lemma rolling_mean_Fin_nth:
  assumes "t < length vs" "0 < w"
  shows "rolling_mean w (map Fin vs) ! t =
     (if t + 1 < w then NaN else Fin ((\<Sum>i = t + 1 - w..<t + 1. vs ! i) / real w))"
proof (cases "t + 1 < w")
  case True
  then show ?thesis using assms by (simp add: rolling_mean_def rolling_nth window_at_Fin)
next
  case False
  then have w: "(t + 1 - w) + w \<le> length vs" "t + 1 - w + w = t + 1"
    using assms by simp_all
  have len: "length (take w (drop (t + 1 - w) vs)) = w"
    using w by simp
  then have ne: "take w (drop (t + 1 - w) vs) \<noteq> []"
    using assms(2) by (metis length_0_conv less_numeral_extra(3))
  show ?thesis
    using False assms(1)
    by (simp only: rolling_mean_def rolling_nth length_map window_at_Fin if_False option.case
        window_mean_def ne len sum_list_window[OF w(1)] w(2))
qed

text \<open>The True Range and its rolling mean.\<close>

lemma fmax_Fin [simp]: "fmax (Fin x) (Fin y) = Fin (max x y)"
  by (simp add: fmax_def max_def)

lemma fsub_Fin [simp]: "fsub (Fin x) (Fin y) = Fin (x - y)"
  by (simp add: fsub_def)

lemma fsub_NaN [simp]: "fsub a NaN = NaN"
  by (cases a) (simp_all add: fsub_def)

lemma high_low_nth:
  "t < length (bars df) \<Longrightarrow> high_low df ! t = Fin (High (bars df ! t) - Low (bars df ! t))"
  by (simp add: high_low_def col_High_def col_Low_def)

lemma high_close_nth:
  "t < length (bars df) \<Longrightarrow>
   high_close df ! t = (if t = 0 then NaN else Fin \<bar>High (bars df ! t) - Close (bars df ! (t - 1))\<bar>)"
  by (simp add: high_close_def col_High_def col_Close_def shift_nth)

lemma low_close_nth:
  "t < length (bars df) \<Longrightarrow>
   low_close df ! t = (if t = 0 then NaN else Fin \<bar>Low (bars df ! t) - Close (bars df ! (t - 1))\<bar>)"
  by (simp add: low_close_def col_Low_def col_Close_def shift_nth)

lemma length_ranges [simp]:
  "length (high_low df) = length (bars df)"
  "length (high_close df) = length (bars df)"
  "length (low_close df) = length (bars df)"
  by (simp_all add: high_low_def high_close_def low_close_def)

lemma true_range_nth:
  assumes "t < length (bars df)"
  shows "true_range df ! t = Fin (tr_value df t)"
proof -
  have "true_range df ! t = row_max [high_low df ! t, high_close df ! t, low_close df ! t]"
    using assms by (simp add: true_range_def)
  then show ?thesis
    using assms
    by (simp add: high_low_nth high_close_nth low_close_nth row_max_def dropna_def isna_def
        tr_value_def Let_def max.assoc)
qed

lemma true_range_eq: "true_range df = map Fin (map (tr_value df) [0..<length (bars df)])"
  by (intro nth_equalityI) (simp_all add: true_range_nth)

lemma ATR_nth:
  assumes "t < length (bars df)"
  shows "ATR df ! t = (if t < 13 then NaN else Fin ((\<Sum>i = t - 13..t. tr_value df i) / 14))"
proof -
  let ?vs = "map (tr_value df) [0..<length (bars df)]"
  have "ATR df ! t = (if t + 1 < 14 then NaN else Fin ((\<Sum>i = t + 1 - 14..<t + 1. ?vs ! i) / real 14))"
    unfolding ATR_def true_range_eq using assms by (intro rolling_mean_Fin_nth) simp_all
  moreover have "(\<Sum>i = t + 1 - 14..<t + 1. ?vs ! i) = (\<Sum>i = t - 13..t. tr_value df i)"
    using assms by (intro sum.cong) auto
  ultimately show ?thesis by simp
qed

text \<open>Mean and standard deviation of the daily returns.\<close>

lemma dropna_Fin [simp]: "dropna (map Fin vs) = map Fin vs"
  by (induction vs) (simp_all add: dropna_def isna_def)

lemma dropna_Cons_NaN [simp]: "dropna (NaN # xs) = dropna xs"
  by (simp add: dropna_def isna_def)

lemma fsum_Fin [simp]: "fsum (map Fin vs) = Fin (sum_list vs)"
  by (induction vs) simp_all

lemma mean_Fin: "mean (map Fin vs) = (if vs = [] then NaN else Fin (sample_mean vs))"
  by (simp add: mean_def sample_mean_def)

lemma mean_NaN_Fin: "mean (NaN # map Fin vs) = (if vs = [] then NaN else Fin (sample_mean vs))"
  by (simp add: mean_def sample_mean_def)

lemma sum_sq_nonneg: "0 \<le> (\<Sum>x\<leftarrow>vs. (x - m)\<^sup>2)" for m :: real
  by (rule sum_list_nonneg) auto

lemma std_Fin: "std (map Fin vs) = (if length vs \<le> 1 then NaN else Fin (sample_std vs))"
proof (cases "length vs \<le> 1")
  case True
  then show ?thesis by (simp add: std_def var_def)
next
  case False
  then have n: "real (length vs) \<noteq> 0" "real (length vs - 1) = real (length vs) - 1" "real (length vs) - 1 > 0"
    by auto
  have sq: "map (\<lambda>v. fmul (fsub (Fin (sample_mean vs)) v) (fsub (Fin (sample_mean vs)) v)) (map Fin vs)
          = map Fin (map (\<lambda>x. (x - sample_mean vs)\<^sup>2) vs)"
    by (simp add: power2_eq_square algebra_simps)
  have "var (map Fin vs) = Fin ((\<Sum>x\<leftarrow>vs. (x - sample_mean vs)\<^sup>2) / (real (length vs) - 1))"
    using False n unfolding var_def Let_def dropna_Fin fsum_Fin
    by (simp add: sample_mean_def[symmetric] sq del: map_map) 
  moreover have "0 \<le> (\<Sum>x\<leftarrow>vs. (x - sample_mean vs)\<^sup>2) / (real (length vs) - 1)"
    using n sum_sq_nonneg[where vs=vs and m="sample_mean vs"] by simp
  ultimately show ?thesis
    using False by (simp add: std_def sample_std_def)
qed

lemma std_NaN_Fin: "std (NaN # map Fin vs) = (if length vs \<le> 1 then NaN else Fin (sample_std vs))"
  using std_Fin[of vs] by (simp add: std_def var_def)

lemma Daily_Return_nth:
  assumes "t < length (bars df)"
  shows "Daily_Return df ! t =
     (if t = 0 then NaN
      else fsub (fdiv (Fin (Close (bars df ! t))) (Fin (Close (bars df ! (t - 1))))) (Fin 1))"
  using assms by (simp add: Daily_Return_def pct_change_def col_Close_def shift_nth fsub_def)

lemma length_Daily_Return [simp]: "length (Daily_Return df) = length (bars df)"
  by (simp add: Daily_Return_def pct_change_def)

lemma Daily_Return_nonzero:
  assumes "\<forall>b\<in>set (bars df). Close b \<noteq> 0" "bars df \<noteq> []"
  shows "Daily_Return df = NaN # map Fin (daily_returns (map Close (bars df)))"
proof (intro nth_equalityI)
  show len: "length (Daily_Return df) = length (NaN # map Fin (daily_returns (map Close (bars df))))"
    using assms(2) by (simp add: daily_returns_def Suc_leI)
  fix t assume t: "t < length (Daily_Return df)"
  show "Daily_Return df ! t = (NaN # map Fin (daily_returns (map Close (bars df)))) ! t"
  proof (cases t)
    case 0
    then show ?thesis using t by (simp add: Daily_Return_nth)
  next
    case (Suc k)
    then have k: "k < length (bars df)" "Suc k < length (bars df)" using t by simp_all
    then have "Close (bars df ! k) \<noteq> 0" using assms(1) by simp
    then show ?thesis
      using Suc k t by (simp add: Daily_Return_nth daily_returns_def diff_divide_distrib)
  qed
qed

lemma length_daily_returns [simp]: "length (daily_returns cs) = length cs - 1"
  by (simp add: daily_returns_def)


text \<open>The analysis with the reductions as parameters.\<close>

lemma analyze_stock_with_exact: "analyze_stock_with mean std = analyze_stock"
  by (rule ext) (simp add: analyze_stock_with_def analyze_stock_def)





text \<open>The rising example.\<close>

lemma bars_rising:
  "bars (price_data rising) = map (\<lambda>i. bar (real i + 101) (real i + 99) (real i + 100)) [0..<30]"
  by (simp add: rising_def frame_of_def)

lemma length_bars_rising [simp]: "length (bars (price_data rising)) = 30"
  by (simp add: bars_rising)

lemma bars_rising_nth:
  "i < 30 \<Longrightarrow> bars (price_data rising) ! i = bar (real i + 101) (real i + 99) (real i + 100)"
  by (simp add: bars_rising)

lemma tr_value_rising: "i < 30 \<Longrightarrow> tr_value (price_data rising) i = 2"
  by (cases i) (simp_all add: tr_value_def bars_rising_nth bar_def Let_def)

lemma last_conv_len: "xs \<noteq> [] \<Longrightarrow> length xs = Suc n \<Longrightarrow> last xs = xs ! n"
  by (simp add: last_conv_nth)

text \<open>The exponentially weighted mean follows the recursion.\<close>

lemma length_ewm_loop [simp]: "length (ewm_loop \<alpha> p xs) = length xs"
  by (induction xs arbitrary: p) (simp_all add: Let_def)

lemma length_ewm_mean [simp]: "length (ewm_mean n xs) = length xs"
  by (simp add: ewm_mean_def split: list.splits)

lemma ewm_loop_step:
  "t < length xs \<Longrightarrow>
   (p # ewm_loop \<alpha> p xs) ! Suc t = (1 - \<alpha>) * (p # ewm_loop \<alpha> p xs) ! t + \<alpha> * xs ! t"
proof (induction xs arbitrary: p t)
  case Nil
  then show ?case by simp
next
  case (Cons x xs)
  show ?case
  proof (cases t)
    case 0
    then show ?thesis by (simp add: Let_def)
  next
    case (Suc k)
    then have "k < length xs" using Cons.prems by simp
    from Cons.IH[OF this, of "(1 - \<alpha>) * p + \<alpha> * x"] show ?thesis
      using Suc by (simp add: Let_def)
  qed
qed

lemma ewm_mean_0: "xs \<noteq> [] \<Longrightarrow> ewm_mean n xs ! 0 = xs ! 0"
  by (cases xs) (simp_all add: ewm_mean_def)

lemma ewm_mean_Suc:
  assumes "Suc t < length xs"
  shows "ewm_mean n xs ! Suc t
    = 2 / (real n + 1) * xs ! Suc t + (1 - 2 / (real n + 1)) * ewm_mean n xs ! t"
proof (cases xs)
  case Nil
  then show ?thesis using assms by simp
next
  case (Cons x rest)
  then have "t < length rest" using assms by simp
  from ewm_loop_step[OF this, of x "2 / (real n + 1)"] show ?thesis
    using Cons by (simp add: ewm_mean_def)
qed

lemma ewm_mean_ema:
  "t < length xs \<Longrightarrow> ewm_mean n xs ! t = ema (2 / (real n + 1)) (\<lambda>i. xs ! i) t"
proof (induction t)
  case 0
  then have "xs \<noteq> []" by auto
  then show ?case by (simp add: ewm_mean_0)
next
  case (Suc t)
  then show ?case by (simp add: ewm_mean_Suc)
qed

lemma length_macd [simp]:
  "length (exp12 df) = length (bars df)"
  "length (exp26 df) = length (bars df)"
  "length (macd_line df) = length (bars df)"
  "length (signal df) = length (bars df)"
  by (simp_all add: exp12_def exp26_def macd_line_def signal_def)

lemma exp12_ema:
  "t < length (bars df) \<Longrightarrow> exp12 df ! t = ema (2 / 13) (\<lambda>i. Close (bars df ! i)) t"
proof -
  assume t: "t < length (bars df)"
  have "ema (2 / 13) (\<lambda>i. map Close (bars df) ! i) t = ema (2 / 13) (\<lambda>i. Close (bars df ! i)) t"
    using t by (induction t) simp_all
  then show ?thesis using t ewm_mean_ema[of t "map Close (bars df)" 12] by (simp add: exp12_def)
qed

lemma exp26_ema:
  "t < length (bars df) \<Longrightarrow> exp26 df ! t = ema (2 / 27) (\<lambda>i. Close (bars df ! i)) t"
proof -
  assume t: "t < length (bars df)"
  have "ema (2 / 27) (\<lambda>i. map Close (bars df) ! i) t = ema (2 / 27) (\<lambda>i. Close (bars df ! i)) t"
    using t by (induction t) simp_all
  then show ?thesis using t ewm_mean_ema[of t "map Close (bars df)" 26] by (simp add: exp26_def)
qed

lemma macd_line_nth:
  "t < length (bars df) \<Longrightarrow> macd_line df ! t = exp12 df ! t - exp26 df ! t"
  by (simp add: macd_line_def)

lemma signal_ema:
  "t < length (bars df) \<Longrightarrow> signal df ! t = ema (2 / 10) (\<lambda>i. macd_line df ! i) t"
  using ewm_mean_ema[of t "macd_line df" 9] by (simp add: signal_def)

text \<open>Gains, losses and the RSI.\<close>

lemma length_delta [simp]: "length (delta df) = length (bars df)"
  by (simp add: delta_def diff_def)

lemma delta_nth:
  "t < length (bars df) \<Longrightarrow>
   delta df ! t = (if t = 0 then NaN else Fin (Close (bars df ! t) - Close (bars df ! (t - 1))))"
  by (simp add: delta_def diff_def col_Close_def shift_nth)

lemma gains_eq:
  "where_else0 (\<lambda>d. flt (Fin 0) d) (delta df) = map Fin (map (up_move df) [0..<length (bars df)])"
  by (intro nth_equalityI) (simp_all add: where_else0_def delta_nth up_move_def max_def)

lemma losses_eq:
  "map fneg (where_else0 (\<lambda>d. flt d (Fin 0)) (delta df))
     = map Fin (map (down_move df) [0..<length (bars df)])"
  by (intro nth_equalityI) (simp_all add: where_else0_def delta_nth down_move_def max_def)

lemma rolling_mean_fun_nth:
  assumes "t < n"
  shows "rolling_mean 14 (map Fin (map f [0..<n])) ! t
     = (if t < 13 then NaN else Fin ((\<Sum>i = t - 13..t. f i) / 14))"
proof -
  let ?vs = "map f [0..<n]"
  have "rolling_mean 14 (map Fin ?vs) ! t
      = (if t + 1 < 14 then NaN else Fin ((\<Sum>i = t + 1 - 14..<t + 1. ?vs ! i) / real 14))"
    using assms by (intro rolling_mean_Fin_nth) simp_all
  moreover have "(\<Sum>i = t + 1 - 14..<t + 1. ?vs ! i) = (\<Sum>i = t - 13..t. f i)"
    using assms by (intro sum.cong) auto
  ultimately show ?thesis by simp
qed

lemma gain_nth:
  "t < length (bars df) \<Longrightarrow> gain df ! t = (if t < 13 then NaN else Fin (avg_gain df t))"
  unfolding gain_def gains_eq avg_gain_def by (rule rolling_mean_fun_nth)

lemma loss_nth:
  "t < length (bars df) \<Longrightarrow> loss df ! t = (if t < 13 then NaN else Fin (avg_loss df t))"
  unfolding loss_def losses_eq avg_loss_def by (rule rolling_mean_fun_nth)

lemma length_gain_loss [simp]:
  "length (gain df) = length (bars df)" "length (loss df) = length (bars df)"
  by (simp_all add: gain_def loss_def rolling_mean_def where_else0_def)

lemma length_RSI [simp]: "length (RSI df) = length (bars df)"
  by (simp add: RSI_def rs_def)

lemma RSI_nth:
  assumes "t < length (bars df)"
  shows "RSI df ! t =
     (if t < 13 then NaN
      else fsub (Fin 100)
             (fdiv (Fin 100) (fadd (Fin 1) (fdiv (Fin (avg_gain df t)) (Fin (avg_loss df t))))))"
  using assms by (simp add: RSI_def rs_def gain_nth loss_nth)

lemma rsi_no_loss:
  assumes "0 < g"
  shows "fsub (Fin 100) (fdiv (Fin 100) (fadd (Fin 1) (fdiv (Fin g) (Fin 0)))) = Fin 100"
  using assms by simp

lemma increasing_moves:
  assumes inc: "\<forall>i. Suc i < length (bars df) \<longrightarrow> Close (bars df ! i) < Close (bars df ! Suc i)"
    and t: "13 \<le> t" "t < length (bars df)"
  shows "avg_loss df t = 0" "0 < avg_gain df t"
proof -
  have step: "Close (bars df ! (i - 1)) < Close (bars df ! i)" if "0 < i" "i \<le> t" for i
    using inc[rule_format, of "i - 1"] that t by simp
  have dn: "down_move df i = 0" if "i \<le> t" for i
    using step[of i] that by (simp add: down_move_def)
  have up: "0 \<le> up_move df i" for i
    by (simp add: up_move_def)
  have upt: "0 < up_move df t"
    using step[of t] t by (simp add: up_move_def)
  show "avg_loss df t = 0"
    by (simp add: avg_loss_def dn)
  have "0 < (\<Sum>i = t - 13..t. up_move df i)"
    by (rule sum_pos2[where i = t]) (use up upt in auto)
  then show "0 < avg_gain df t"
    by (simp add: avg_gain_def)
qed

lemma close_rising:
  "i < 30 \<Longrightarrow> Close (bars (price_data rising) ! i) = real i + 100"
  by (simp add: bars_rising_nth bar_def)

text \<open>Series of a constant close.\<close>

lemma bars_flat [simp]: "bars (price_data (flat c n)) = replicate n (bar c c c)"
  by (simp add: flat_def frame_of_def)

lemma Close_bar [simp]: "Close (bar h l c) = c"
  by (simp add: bar_def)

lemma fsub_NaN_left [simp]: "fsub NaN b = NaN"
  by (simp add: fsub_def)

lemma rolling_Fin_nth:
  assumes "t < length vs"
  shows "rolling w f (map Fin vs) ! t
     = (if t + 1 < w then NaN else f (take w (drop (t + 1 - w) vs)))"
  using assms by (simp add: rolling_nth window_at_Fin)

lemma closes_const:
  assumes "\<forall>b\<in>set (bars df). Close b = c"
  shows "map Close (bars df) = replicate (length (bars df)) c"
  using assms by (intro nth_equalityI) simp_all

lemma col_Close_const:
  assumes "\<forall>b\<in>set (bars df). Close b = c"
  shows "col_Close df = replicate (length (bars df)) (Fin c)"
  using assms by (intro nth_equalityI) (simp_all add: col_Close_def)

lemma window_const:
  assumes "t < n" "w \<le> t + 1"
  shows "take w (drop (t + 1 - w) (replicate n c)) = replicate w c"
  using assms by (simp add: min_def)

lemma window_mean_const: "0 < w \<Longrightarrow> window_mean (replicate w c) = Fin c"
  by (simp add: window_mean_def sum_list_replicate)

lemma window_std_const: "1 < w \<Longrightarrow> window_std (replicate w c) = Fin 0"
  by (simp add: window_std_def sum_list_replicate Let_def)

lemma rolling_mean_const:
  assumes "t < n" "0 < w"
  shows "rolling_mean w (replicate n (Fin c)) ! t = (if t + 1 < w then NaN else Fin c)"
proof -
  have "rolling w window_mean (map Fin (replicate n c)) ! t
      = (if t + 1 < w then NaN else window_mean (take w (drop (t + 1 - w) (replicate n c))))"
    using assms by (intro rolling_Fin_nth) simp
  then show ?thesis
    using assms by (simp add: rolling_mean_def window_mean_const)
qed

lemma rolling_std_const:
  assumes "t < n" "1 < w"
  shows "rolling_std w (replicate n (Fin c)) ! t = (if t + 1 < w then NaN else Fin 0)"
proof -
  have "rolling w window_std (map Fin (replicate n c)) ! t
      = (if t + 1 < w then NaN else window_std (take w (drop (t + 1 - w) (replicate n c))))"
    using assms by (intro rolling_Fin_nth) simp
  then show ?thesis
    using assms by (simp add: rolling_std_def window_std_const)
qed

lemma length_bands [simp]:
  "length (SMA20 df) = length (bars df)"
  "length (UpperBand df) = length (bars df)"
  "length (LowerBand df) = length (bars df)"
  "length (BB_Gap df) = length (bars df)"
  "length (calculate_roc df k) = length (bars df)"
  by (simp_all add: SMA20_def UpperBand_def LowerBand_def BB_Gap_def calculate_roc_def
      rolling_mean_def rolling_std_def)

lemma bands_const:
  assumes c: "\<forall>b\<in>set (bars df). Close b = c" and t: "t < length (bars df)"
  shows "UpperBand df ! t = (if t < 19 then NaN else Fin c)"
    and "LowerBand df ! t = (if t < 19 then NaN else Fin c)"
    and "BB_Gap df ! t = (if t < 19 then NaN else Fin 0)"
proof -
  have m: "rolling_mean 20 (col_Close df) ! t = (if t < 19 then NaN else Fin c)"
    unfolding col_Close_const[OF c] using rolling_mean_const[OF t, of 20 c] by simp
  have sd: "rolling_std 20 (col_Close df) ! t = (if t < 19 then NaN else Fin 0)"
    unfolding col_Close_const[OF c] using rolling_std_const[OF t, of 20 c] by simp
  show u: "UpperBand df ! t = (if t < 19 then NaN else Fin c)"
    using t m sd by (simp add: UpperBand_def SMA20_def rolling_mean_def rolling_std_def)
  show l: "LowerBand df ! t = (if t < 19 then NaN else Fin c)"
    using t m sd by (simp add: LowerBand_def SMA20_def rolling_mean_def rolling_std_def)
  show "BB_Gap df ! t = (if t < 19 then NaN else Fin 0)"
    using t u l by (simp add: BB_Gap_def)
qed

lemma roc_const:
  assumes c: "\<forall>b\<in>set (bars df). Close b = c" and t: "t < length (bars df)" and nz: "c \<noteq> 0"
  shows "calculate_roc df 12 ! t = (if t < 12 then NaN else Fin 0)"
  using t nz unfolding calculate_roc_def col_Close_const[OF c]
  by (simp add: shift_nth)

lemma dropna_replicate_NaN [simp]: "dropna (replicate k NaN @ xs) = dropna xs"
  by (induction k) simp_all

lemma dropna_replicate_Fin [simp]: "dropna (replicate m (Fin v)) = replicate m (Fin v)"
  by (induction m) (simp_all add: dropna_def isna_def)

lemma fsum_replicate_Fin [simp]: "fsum (replicate m (Fin v)) = Fin (real m * v)"
  by (induction m) (simp_all add: algebra_simps)

lemma mean_after_gap:
  assumes len: "length xs = n" and k: "k < n"
    and nth: "\<forall>t<n. xs ! t = (if t < k then NaN else Fin v)"
  shows "mean xs = Fin v"
proof -
  have "xs = replicate k NaN @ map Fin (replicate (n - k) v)"
    using len k nth by (intro nth_equalityI) (auto simp add: nth_append)
  moreover have "replicate (n - k) v \<noteq> []" using k by simp
  ultimately show ?thesis
    using k by (simp add: mean_def)
qed

lemma daily_returns_const:
  "c \<noteq> 0 \<Longrightarrow> daily_returns (replicate n c) = replicate (n - 1) 0"
  by (intro nth_equalityI) (simp_all add: daily_returns_def)

lemma sample_mean_zeros [simp]: "sample_mean (replicate k 0) = 0"
  by (simp add: sample_mean_def sum_list_replicate)

lemma sample_std_zeros [simp]: "sample_std (replicate k 0) = 0"
  by (simp add: sample_std_def sum_list_replicate)

lemma Daily_Return_const:
  assumes c: "\<forall>b\<in>set (bars df). Close b = c" and nz: "c \<noteq> 0" and ne: "bars df \<noteq> []"
  shows "Daily_Return df = NaN # map Fin (replicate (length (bars df) - 1) 0)"
proof -
  have "\<forall>b\<in>set (bars df). Close b \<noteq> 0" using c nz by simp
  from Daily_Return_nonzero[OF this ne] show ?thesis
    unfolding closes_const[OF c] daily_returns_const[OF nz] .
qed



lemma bars_frame_after [simp]: "bars (frame_after df) = bars df"
  by (simp add: frame_after_def)





text \<open>The gatherer's loop.\<close>

lemma fetch_stock_nonempty:
  "fetch_stock p now sd ed stock = Inr e \<Longrightarrow> bars (price_data e) \<noteq> []"
  by (auto simp add: fetch_stock_def split: sum.splits if_splits)

lemma fetch_stock_history_fails:
  "history p stock sd ed = Inl e \<Longrightarrow> fetch_stock p now sd ed stock = Inl e"
  by (simp add: fetch_stock_def)

lemma fetch_stock_empty_data:
  "history p stock sd ed = Inr data \<Longrightarrow> bars data = [] \<Longrightarrow>
   fetch_stock p now sd ed stock = Inl (ValueError (''No data available for '' @ stock))"
  by (simp add: fetch_stock_def)

lemma collect_loop_map:
  "map_of (fst (collect_loop p now sd ed stocks (ev, lg))) k =
     (if k \<in> set stocks
      then (case fetch_stock p now sd ed k of Inl e \<Rightarrow> map_of ev k | Inr entry \<Rightarrow> Some entry)
      else map_of ev k)"
proof (induction stocks arbitrary: ev lg)
  case Nil
  then show ?case by simp
next
  case (Cons stock stocks)
  show ?case
  proof (cases "fetch_stock p now sd ed stock")
    case (Inl e)
    then show ?thesis using Cons.IH by (auto split: sum.splits)
  next
    case (Inr entry)
    then show ?thesis using Cons.IH by (auto simp add: update_conv' split: sum.splits)
  qed
qed

lemma collect_loop_distinct:
  "distinct (map fst ev) \<Longrightarrow> distinct (map fst (fst (collect_loop p now sd ed stocks (ev, lg))))"
proof (induction stocks arbitrary: ev lg)
  case Nil
  then show ?case by simp
next
  case (Cons stock stocks)
  then show ?case by (cases "fetch_stock p now sd ed stock") (simp_all add: distinct_update)
qed

lemma collect_loop_log:
  "snd (collect_loop p now sd ed stocks (ev, lg)) =
     lg @ concat (map (\<lambda>s. [Investigating s,
                              case fetch_stock p now sd ed s of
                                Inl e \<Rightarrow> log_failure s e | Inr entry \<Rightarrow> Stored s]) stocks)"
proof (induction stocks arbitrary: ev lg)
  case Nil
  then show ?case by simp
next
  case (Cons stock stocks)
  then show ?case by (cases "fetch_stock p now sd ed stock") simp_all
qed

lemma collect_evidence_fst:
  "fst (collect_evidence p now stocks sd ed) = snd (collect_loop p now sd ed stocks ([], []))"
  by (simp add: collect_evidence_def split: prod.splits)

lemma collect_evidence_snd:
  "snd (collect_evidence p now stocks sd ed) =
     (if fst (collect_loop p now sd ed stocks ([], [])) = []
      then Inl (Exception ''No data could be retrieved for any of the stocks.'')
      else Inr (fst (collect_loop p now sd ed stocks ([], []))))"
  by (simp add: collect_evidence_def split: prod.splits)

lemma locker_keys:
  "fst ` set (fst (collect_loop p now sd ed stocks ([], []))) =
     {s \<in> set stocks. \<exists>entry. fetch_stock p now sd ed s = Inr entry}"
proof -
  let ?ev = "fst (collect_loop p now sd ed stocks ([], []))"
  have "fst ` set ?ev = dom (map_of ?ev)" by (simp add: dom_map_of_conv_image_fst)
  also have "\<dots> = {s \<in> set stocks. \<exists>entry. fetch_stock p now sd ed s = Inr entry}"
  proof (intro set_eqI)
    fix k
    show "k \<in> dom (map_of ?ev) \<longleftrightarrow>
        k \<in> {s \<in> set stocks. \<exists>entry. fetch_stock p now sd ed s = Inr entry}"
      by (cases "fetch_stock p now sd ed k") (simp_all add: dom_def collect_loop_map)
  qed
  finally show ?thesis .
qed

lemma fetch_example:
  "fetch_stock example_provider now sd ed ''AAA'' = Inr doubling"
  "fetch_stock example_provider now sd ed ''BBB'' = Inl RequestException"
  "fetch_stock example_provider now sd ed ''CCC'' = Inr doubling"
  by (simp_all add: fetch_stock_def example_provider_def doubling_def frame_of_def)

text \<open>The worker pool and the merge of its results.\<close>

lemma analyze_stock_item:
  assumes "bars (price_data (snd item)) \<noteq> []"
  shows "\<exists>r. snd (analyze_stock item) = Inr (fst item, r)"
proof -
  obtain s d where item: "item = (s, d)" by (cases item)
  then show ?thesis using assms by (simp add: analyze_stock_nonempty)
qed

lemma pool_map_all_ok:
  "\<forall>x\<in>set xs. \<exists>y. f x = Inr y \<Longrightarrow> pool_map f xs = Inr (map (\<lambda>x. projr (f x)) xs)"
proof (induction xs)
  case Nil
  then show ?case by simp
next
  case (Cons x xs)
  then obtain y where "f x = Inr y" by auto
  then show ?case using Cons by simp
qed

lemma store_results_map:
  "map_of (store_results acc results) = map_of acc ++ map_of (rev results)"
proof (induction results arbitrary: acc)
  case Nil
  then show ?case by simp
next
  case (Cons kv results)
  obtain k v where kv: "kv = (k, v)" by (cases kv)
  have "map_of (store_results acc (kv # results))
      = map_of (AList.update k v acc) ++ map_of (rev results)"
    unfolding kv by (simp add: Cons.IH)
  also have "\<dots> = (map_of acc ++ [k \<mapsto> v]) ++ map_of (rev results)"
    by (simp add: update_conv')
  also have "\<dots> = map_of acc ++ map_of (rev (kv # results))"
    unfolding kv by (simp del: map_add_upd)
  finally show ?case .
qed

lemma store_results_distinct:
  "distinct (map fst acc) \<Longrightarrow> distinct (map fst (store_results acc results))"
proof (induction results arbitrary: acc)
  case Nil
  then show ?case by simp
next
  case (Cons kv results)
  then show ?case by (cases kv) (simp add: distinct_update)
qed

lemma map_of_reordered:
  assumes "distinct (map fst xs)" "mset ys = mset xs"
  shows "map_of ys = map_of xs"
proof -
  have "mset (map fst ys) = mset (map fst xs)" using assms(2) by simp
  then have "distinct (map fst ys)" using assms(1) mset_eq_imp_distinct_iff by blast
  moreover have "set ys = set xs" using assms(2) by (rule mset_eq_setD)
  ultimately show ?thesis using assms(1) by (simp add: map_of_inject_set)
qed

lemma store_results_reordered:
  assumes "distinct (map fst results)" "mset results' = mset results"
  shows "map_of (store_results [] results') = map_of results"
proof -
  have "mset (rev results') = mset results" using assms(2) by simp
  from map_of_reordered[OF assms(1) this] show ?thesis
    by (simp add: store_results_map)
qed

lemma collect_evidence_rows:
  assumes "snd (collect_evidence p now stocks sd ed) = Inr ev"
  shows "distinct (map fst ev) \<and> (\<forall>item\<in>set ev. bars (price_data (snd item)) \<noteq> [])"
proof -
  let ?ev = "fst (collect_loop p now sd ed stocks ([], []))"
  have ev: "ev = ?ev"
    using assms by (simp add: collect_evidence_snd split: if_splits)
  have d: "distinct (map fst ?ev)" by (rule collect_loop_distinct) simp
  have "bars (price_data (snd item)) \<noteq> []" if "item \<in> set ?ev" for item
  proof -
    obtain k e where item: "item = (k, e)" by (cases item)
    from d that have "map_of ?ev k = Some e" unfolding item by (rule map_of_is_SomeI)
    then have "fetch_stock p now sd ed k = Inr e"
      by (simp add: collect_loop_map split: if_splits sum.splits)
    then show ?thesis unfolding item by (simp add: fetch_stock_nonempty)
  qed
  then show ?thesis using d unfolding ev by blast
qed
















text \<open>Validation of the configuration.\<close>

lemma validate_config_iff:
  "validate_config cfg = Inr () \<longleftrightarrow>
     cfg ''start_date'' \<noteq> None \<and> cfg ''end_date'' \<noteq> None \<and>
     (\<exists>v. cfg ''stocks'' = Some v \<and> nonempty_list v) \<and>
     (cfg ''report_format'' = Some (YStr ''pdf'') \<or> cfg ''report_format'' = Some (YStr ''txt''))"
  by (auto simp add: validate_config_def split: option.splits)

section \<open>C1: the Sharpe ratio\<close>



section \<open>C2: MACD and its signal line\<close>

text \<open>
  Claim C2.  For every non-empty price series the MACD line is the exponential moving
  average of the close with span 12 minus the one with span 26, and the signal line is
  the exponential moving average of the MACD line with span 9.  Each average follows
  \<open>ema[t] = \<alpha> * x[t] + (1 - \<alpha>) * ema[t-1]\<close> with \<open>\<alpha> = 2 / (span + 1)\<close> and starts at the
  first input (\<open>ema[0] = x[0]\<close>).  In particular the span-12 average at the second bar
  is \<open>2/13 * p1 + (1 - 2/13) * p0\<close>.  The scalars \<open>macd\<close> and \<open>macd_signal\<close> that are
  returned are the last elements of the two lines, which are returned whole as
  \<open>macd_data\<close>.
\<close>

theorem macd_is_ema_difference:
  assumes "bars (price_data d) \<noteq> []"
  shows "(\<forall>t<length (bars (price_data d)).
            exp12 (price_data d) ! t = ema (2 / 13) (\<lambda>i. Close (bars (price_data d) ! i)) t \<and>
            exp26 (price_data d) ! t = ema (2 / 27) (\<lambda>i. Close (bars (price_data d) ! i)) t \<and>
            macd_line (price_data d) ! t = exp12 (price_data d) ! t - exp26 (price_data d) ! t \<and>
            signal (price_data d) ! t = ema (2 / 10) (\<lambda>i. macd_line (price_data d) ! i) t) \<and>
         (2 \<le> length (bars (price_data d)) \<longrightarrow>
            exp12 (price_data d) ! 1
              = 2 / 13 * Close (bars (price_data d) ! 1)
                + (1 - 2 / 13) * Close (bars (price_data d) ! 0)) \<and>
         (\<exists>r. snd (analyze_stock (s, d)) = Inr (s, r) \<and>
              macd r = Fin (macd_line (price_data d) ! (length (bars (price_data d)) - 1)) \<and>
              macd_signal r = Fin (signal (price_data d) ! (length (bars (price_data d)) - 1)) \<and>
              macd_data r = [(''MACD'', map Fin (macd_line (price_data d))),
                             (''Signal'', map Fin (signal (price_data d)))])"
proof (intro conjI allI impI)
  fix t assume t: "t < length (bars (price_data d))"
  show "exp12 (price_data d) ! t = ema (2 / 13) (\<lambda>i. Close (bars (price_data d) ! i)) t"
    using t by (rule exp12_ema)
  show "exp26 (price_data d) ! t = ema (2 / 27) (\<lambda>i. Close (bars (price_data d) ! i)) t"
    using t by (rule exp26_ema)
  show "macd_line (price_data d) ! t = exp12 (price_data d) ! t - exp26 (price_data d) ! t"
    using t by (rule macd_line_nth)
  show "signal (price_data d) ! t = ema (2 / 10) (\<lambda>i. macd_line (price_data d) ! i) t"
    using t by (rule signal_ema)
next
  assume "2 \<le> length (bars (price_data d))"
  then have "1 < length (bars (price_data d))" by simp
  from exp12_ema[OF this]
  show "exp12 (price_data d) ! 1
      = 2 / 13 * Close (bars (price_data d) ! 1) + (1 - 2 / 13) * Close (bars (price_data d) ! 0)"
    by simp
next
  have m: "macd_line (price_data d) \<noteq> []" "signal (price_data d) \<noteq> []"
    by (rule ne_of_length[OF length_macd(3) assms], rule ne_of_length[OF length_macd(4) assms])
  show "\<exists>r. snd (analyze_stock (s, d)) = Inr (s, r) \<and>
              macd r = Fin (macd_line (price_data d) ! (length (bars (price_data d)) - 1)) \<and>
              macd_signal r = Fin (signal (price_data d) ! (length (bars (price_data d)) - 1)) \<and>
              macd_data r = [(''MACD'', map Fin (macd_line (price_data d))),
                             (''Signal'', map Fin (signal (price_data d)))]"
    unfolding analyze_stock_nonempty[OF assms]
    using m by (simp add: last_conv_nth)
qed

text \<open>
  On the doubling series (closes 1, 2, 4) the fast average at the second bar is
  \<open>2/13 * 2 + 11/13 * 1 = 15/13\<close>.
\<close>

theorem macd_is_ema_difference_witness:
  "bars (price_data doubling) \<noteq> [] \<and>
   exp12 (price_data doubling) ! 0 = 1 \<and>
   exp12 (price_data doubling) ! 1 = 15 / 13 \<and>
   macd_line (price_data doubling) ! 1 = 15 / 13 - 29 / 27 \<and>
   signal (price_data doubling) ! 0 = 0 \<and>
   (case snd (analyze_stock (''DBL'', doubling)) of
      Inl e \<Rightarrow> False
    | Inr (s, r) \<Rightarrow> macd r = Fin (macd_line (price_data doubling) ! 2))"
proof -
  have bs: "bars (price_data doubling) = [bar 1 1 1, bar 2 2 2, bar 4 4 4]"
    by (simp add: doubling_def frame_of_def)
  have ne: "bars (price_data doubling) \<noteq> []" by (simp add: bs)
  note th = macd_is_ema_difference[OF ne, of "''DBL''"]
  have e0: "exp12 (price_data doubling) ! 0 = 1" "exp26 (price_data doubling) ! 0 = 1"
    using th by (simp_all add: bs bar_def)
  have e1: "exp12 (price_data doubling) ! 1 = 15 / 13" "exp26 (price_data doubling) ! 1 = 29 / 27"
    using th by (simp_all add: bs bar_def)
  have m0: "macd_line (price_data doubling) ! 0 = 0"
    using th e0 by (simp add: bs)
  have m1: "macd_line (price_data doubling) ! 1 = 15 / 13 - 29 / 27"
    using th e1 by (simp add: bs)
  have s0: "signal (price_data doubling) ! 0 = 0"
    using th m0 by (simp add: bs)
  from th obtain r where "snd (analyze_stock (''DBL'', doubling)) = Inr (''DBL'', r)"
    "macd r = Fin (macd_line (price_data doubling) ! (length (bars (price_data doubling)) - 1))"
    by blast
  then show ?thesis using ne e0 e1 m1 s0 by (simp add: bs numeral_2_eq_2)
qed

section \<open>C3: the RSI\<close>

text \<open>
  Claim C3.  At every index the RSI is \<open>100 - 100 / (1 + gain / loss)\<close>, where gain is
  the 14-period rolling mean of the positive close-to-close changes and loss that of
  the sizes of the negative ones, a change in the other direction entering its mean as
  0 (as does the missing change of the first bar).  Both means are NaN before index
  13.  For a strictly increasing close series the loss mean is 0 and the RSI is 100 at
  every index from 13 on.  When the series has a bar, the \<open>rsi\<close> that is returned is the
  last element of the series, which is returned whole as the RSI column.
\<close>

theorem rsi_formula:
  "(\<forall>t<length (bars (price_data d)).
            gain (price_data d) ! t = (if t < 13 then NaN else Fin (avg_gain (price_data d) t)) \<and>
            loss (price_data d) ! t = (if t < 13 then NaN else Fin (avg_loss (price_data d) t)) \<and>
            RSI (price_data d) ! t =
              fsub (Fin 100)
                (fdiv (Fin 100) (fadd (Fin 1) (fdiv (gain (price_data d) ! t) (loss (price_data d) ! t))))) \<and>
         ((\<forall>i. Suc i < length (bars (price_data d)) \<longrightarrow>
              Close (bars (price_data d) ! i) < Close (bars (price_data d) ! Suc i)) \<longrightarrow>
          (\<forall>t<length (bars (price_data d)). 13 \<le> t \<longrightarrow>
              loss (price_data d) ! t = Fin 0 \<and> RSI (price_data d) ! t = Fin 100)) \<and>
         (bars (price_data d) \<noteq> [] \<longrightarrow>
            (\<exists>r. snd (analyze_stock (s, d)) = Inr (s, r) \<and>
               rsi r = RSI (price_data d) ! (length (bars (price_data d)) - 1) \<and>
               map_of (price_data_out r) ''RSI'' = Some (RSI (price_data d))))"
proof (intro conjI allI impI)
  fix t assume t: "t < length (bars (price_data d))"
  show "gain (price_data d) ! t = (if t < 13 then NaN else Fin (avg_gain (price_data d) t))"
    using t by (rule gain_nth)
  show "loss (price_data d) ! t = (if t < 13 then NaN else Fin (avg_loss (price_data d) t))"
    using t by (rule loss_nth)
  show "RSI (price_data d) ! t =
      fsub (Fin 100)
        (fdiv (Fin 100) (fadd (Fin 1) (fdiv (gain (price_data d) ! t) (loss (price_data d) ! t))))"
    using t by (simp add: RSI_def rs_def)
next
  fix t
  assume inc: "\<forall>i. Suc i < length (bars (price_data d)) \<longrightarrow>
              Close (bars (price_data d) ! i) < Close (bars (price_data d) ! Suc i)"
    and t: "t < length (bars (price_data d))" "13 \<le> t"
  note m = increasing_moves[OF inc t(2) t(1)]
  show "loss (price_data d) ! t = Fin 0"
    using t m by (simp add: loss_nth)
  show "RSI (price_data d) ! t = Fin 100"
    using t m rsi_no_loss[OF m(2)] by (simp add: RSI_nth)
next
  assume rows: "bars (price_data d) \<noteq> []"
  have ne: "RSI (price_data d) \<noteq> []"
    by (rule ne_of_length[OF length_RSI rows])
  show "\<exists>r. snd (analyze_stock (s, d)) = Inr (s, r) \<and>
          rsi r = RSI (price_data d) ! (length (bars (price_data d)) - 1) \<and>
          map_of (price_data_out r) ''RSI'' = Some (RSI (price_data d))"
    unfolding analyze_stock_nonempty[OF rows]
    using ne by (simp add: last_conv_nth)
qed

text \<open>On the rising example the RSI is NaN up to index 12 and 100 from index 13 on.\<close>

theorem rsi_formula_witness:
  "bars (price_data rising) \<noteq> [] \<and>
   RSI (price_data rising) ! 12 = NaN \<and>
   RSI (price_data rising) ! 13 = Fin 100 \<and>
   loss (price_data rising) ! 20 = Fin 0 \<and>
   (case snd (analyze_stock (''UP'', rising)) of Inl e \<Rightarrow> False | Inr (s, r) \<Rightarrow> rsi r = Fin 100)"
proof -
  have ne: "bars (price_data rising) \<noteq> []"
    by (simp add: bars_rising)
  note th = rsi_formula[where d = rising and s = "''UP''"]
  have inc: "\<forall>i. Suc i < length (bars (price_data rising)) \<longrightarrow>
      Close (bars (price_data rising) ! i) < Close (bars (price_data rising) ! Suc i)"
    by (simp add: close_rising)
  have len: "(12::nat) < length (bars (price_data rising))" "(13::nat) < length (bars (price_data rising))"
    "(20::nat) < length (bars (price_data rising))" "(29::nat) < length (bars (price_data rising))"
    by simp_all
  have hi: "\<forall>t<length (bars (price_data rising)). 13 \<le> t \<longrightarrow>
      loss (price_data rising) ! t = Fin 0 \<and> RSI (price_data rising) ! t = Fin 100"
    using th[THEN conjunct2, THEN conjunct1] inc by (rule mp)
  have h13: "RSI (price_data rising) ! 13 = Fin 100" using hi[rule_format, OF len(2)] by simp
  have h20: "loss (price_data rising) ! 20 = Fin 0" using hi[rule_format, OF len(3)] by simp
  have h29: "RSI (price_data rising) ! 29 = Fin 100" using hi[rule_format, OF len(4)] by simp
  have lo: "RSI (price_data rising) ! 12 = NaN"
    using th[THEN conjunct1, rule_format, OF len(1)] by simp
  from th[THEN conjunct2, THEN conjunct2] ne
  obtain r where r: "snd (analyze_stock (''UP'', rising)) = Inr (''UP'', r)"
    "rsi r = RSI (price_data rising) ! (length (bars (price_data rising)) - 1)"
    by blast
  show ?thesis
    using ne lo h13 h20 h29 r by simp
qed

section \<open>C4: a constant price\<close>

text \<open>
  Claim C4, amended.  For every series of at least 20 bars whose closes all equal one
  value \<open>c\<close> other than 0: the Daily Return is 0 at every index after the first (NaN at
  the first), the volatility is 0, the Sharpe ratio is NaN (0 / 0), the upper and the
  lower Bollinger band equal \<open>c\<close> from index 19 on (NaN before), so that the gap is 0
  there and the average gap is 0, and the ROC is 0 from index 12 on (NaN before), as
  are its average and its latest value.
\<close>

theorem constant_price_series:
  assumes c: "\<forall>b\<in>set (bars (price_data d)). Close b = c"
    and nz: "c \<noteq> 0"
    and n: "20 \<le> length (bars (price_data d))"
  shows "\<exists>r. snd (analyze_stock (s, d)) = Inr (s, r) \<and>
     (\<forall>t<length (bars (price_data d)).
        Daily_Return (price_data d) ! t = (if t = 0 then NaN else Fin 0) \<and>
        UpperBand (price_data d) ! t = (if t < 19 then NaN else Fin c) \<and>
        LowerBand (price_data d) ! t = (if t < 19 then NaN else Fin c) \<and>
        BB_Gap (price_data d) ! t = (if t < 19 then NaN else Fin 0) \<and>
        calculate_roc (price_data d) 12 ! t = (if t < 12 then NaN else Fin 0)) \<and>
     volatility r = Fin 0 \<and> avg_daily_return r = Fin 0 \<and> sharpe_ratio r = NaN \<and>
     upper_band r = Fin c \<and> lower_band r = Fin c \<and> avg_bb_gap r = Fin 0 \<and>
     avg_roc r = Fin 0 \<and> latest_roc r = Fin 0 \<and>
     map_of (price_data_out r) ''Daily Return'' = Some (Daily_Return (price_data d)) \<and>
     map_of (price_data_out r) ''UpperBand'' = Some (UpperBand (price_data d)) \<and>
     map_of (price_data_out r) ''LowerBand'' = Some (LowerBand (price_data d)) \<and>
     map_of (price_data_out r) ''ROC'' = Some (calculate_roc (price_data d) 12)"
proof -
  let ?df = "price_data d"
  let ?n = "length (bars ?df)"
  have ne: "bars ?df \<noteq> []"
  proof
    assume "bars ?df = []"
    with n show False by simp
  qed
  have last_lt: "?n - 1 < ?n" using n by simp
  have dr: "Daily_Return ?df = NaN # map Fin (replicate (?n - 1) 0)"
    by (rule Daily_Return_const[OF c nz ne])
  have dr_nth: "Daily_Return ?df ! t = (if t = 0 then NaN else Fin 0)" if "t < ?n" for t
    using that unfolding dr by (cases t) simp_all
  have vol: "std (Daily_Return ?df) = Fin 0"
    unfolding dr std_NaN_Fin using n by simp
  have avg: "mean (Daily_Return ?df) = Fin 0"
    unfolding dr mean_NaN_Fin using n by simp
  have gap: "mean (BB_Gap ?df) = Fin 0"
    by (rule mean_after_gap[where n = "?n" and k = 19])
      (use n bands_const(3)[OF c] in simp_all)
  have roc: "mean (calculate_roc ?df 12) = Fin 0"
    by (rule mean_after_gap[where n = "?n" and k = 12])
      (use n roc_const[OF c _ nz] in simp_all)
  have lu: "last (UpperBand ?df) = Fin c"
    using bands_const(1)[OF c last_lt] n
    by (simp add: last_conv_nth[OF ne_of_length[OF length_bands(2) ne]])
  have ll: "last (LowerBand ?df) = Fin c"
    using bands_const(2)[OF c last_lt] n
    by (simp add: last_conv_nth[OF ne_of_length[OF length_bands(3) ne]])
  have lr: "last (calculate_roc ?df 12) = Fin 0"
    using roc_const[OF c last_lt nz] n
    by (simp add: last_conv_nth[OF ne_of_length[OF length_bands(5) ne]])
  define r where "r = snd (projr (snd (analyze_stock (s, d))))"
  have res: "snd (analyze_stock (s, d)) = Inr (s, r)"
    unfolding r_def analyze_stock_nonempty[OF ne] by simp
  have fields:
    "volatility r = Fin 0" "avg_daily_return r = Fin 0" "sharpe_ratio r = NaN"
    "upper_band r = Fin c" "lower_band r = Fin c" "avg_bb_gap r = Fin 0"
    "avg_roc r = Fin 0" "latest_roc r = Fin 0"
    unfolding r_def analyze_stock_nonempty[OF ne]
    by (simp_all add: vol avg gap roc lu ll lr)
  have out:
    "map_of (price_data_out r) ''Daily Return'' = Some (Daily_Return ?df)"
    "map_of (price_data_out r) ''UpperBand'' = Some (UpperBand ?df)"
    "map_of (price_data_out r) ''LowerBand'' = Some (LowerBand ?df)"
    "map_of (price_data_out r) ''ROC'' = Some (calculate_roc ?df 12)"
    unfolding r_def analyze_stock_nonempty[OF ne] by simp_all
  have series: "\<forall>t<?n.
        Daily_Return ?df ! t = (if t = 0 then NaN else Fin 0) \<and>
        UpperBand ?df ! t = (if t < 19 then NaN else Fin c) \<and>
        LowerBand ?df ! t = (if t < 19 then NaN else Fin c) \<and>
        BB_Gap ?df ! t = (if t < 19 then NaN else Fin 0) \<and>
        calculate_roc ?df 12 ! t = (if t < 12 then NaN else Fin 0)"
    using dr_nth bands_const[OF c] roc_const[OF c _ nz] by simp
  show ?thesis
    by (intro exI[of _ r] conjI) (fact res series fields out)+
qed

text \<open>Twenty-five bars at the price 5.\<close>

theorem constant_price_series_witness:
  "20 \<le> length (bars (price_data (flat 5 25))) \<and>
   Daily_Return (price_data (flat 5 25)) ! 1 = Fin 0 \<and>
   UpperBand (price_data (flat 5 25)) ! 19 = Fin 5 \<and>
   BB_Gap (price_data (flat 5 25)) ! 18 = NaN \<and>
   calculate_roc (price_data (flat 5 25)) 12 ! 12 = Fin 0 \<and>
   (case snd (analyze_stock (''FLAT'', flat 5 25)) of
      Inl e \<Rightarrow> False
    | Inr (s, r) \<Rightarrow> volatility r = Fin 0 \<and> sharpe_ratio r = NaN \<and> lower_band r = Fin 5 \<and>
                    avg_bb_gap r = Fin 0 \<and> latest_roc r = Fin 0)"
proof -
  have c: "\<forall>b\<in>set (bars (price_data (flat 5 25))). Close b = 5" by simp
  have nz: "(5::real) \<noteq> 0" by simp
  have n: "20 \<le> length (bars (price_data (flat 5 25)))" by simp
  from constant_price_series[OF c nz n, of "''FLAT''"] obtain r where
    res: "snd (analyze_stock (''FLAT'', flat 5 25)) = Inr (''FLAT'', r)"
    and series: "\<forall>t<length (bars (price_data (flat 5 25))).
        Daily_Return (price_data (flat 5 25)) ! t = (if t = 0 then NaN else Fin 0) \<and>
        UpperBand (price_data (flat 5 25)) ! t = (if t < 19 then NaN else Fin 5) \<and>
        LowerBand (price_data (flat 5 25)) ! t = (if t < 19 then NaN else Fin 5) \<and>
        BB_Gap (price_data (flat 5 25)) ! t = (if t < 19 then NaN else Fin 0) \<and>
        calculate_roc (price_data (flat 5 25)) 12 ! t = (if t < 12 then NaN else Fin 0)"
    and fields: "volatility r = Fin 0" "sharpe_ratio r = NaN" "lower_band r = Fin 5"
      "avg_bb_gap r = Fin 0" "latest_roc r = Fin 0"
    by blast
  have len: "(1::nat) < length (bars (price_data (flat 5 25)))"
    "(19::nat) < length (bars (price_data (flat 5 25)))"
    "(18::nat) < length (bars (price_data (flat 5 25)))"
    "(12::nat) < length (bars (price_data (flat 5 25)))"
    by simp_all
  show ?thesis
    using n res fields series[rule_format, OF len(1)] series[rule_format, OF len(2)]
      series[rule_format, OF len(3)] series[rule_format, OF len(4)]
    by simp
qed

text \<open>
  The claim as first stated, for every constant price, fails at the price 0: every
  return is \<open>0 / 0 - 1\<close>, so the Daily Return is NaN and not 0, the volatility is NaN
  and not 0, and the ROC is NaN.
\<close>

theorem constant_zero_price_counterexample:
  "Daily_Return (price_data (flat 0 20)) ! 1 = NaN \<and>
   calculate_roc (price_data (flat 0 20)) 12 ! 12 = NaN \<and>
   (case snd (analyze_stock (''ZERO'', flat 0 20)) of
      Inl e \<Rightarrow> False
    | Inr (s, r) \<Rightarrow> volatility r = NaN \<and> latest_roc r = NaN)"
proof -
  let ?df = "price_data (flat 0 20)"
  have ne: "bars ?df \<noteq> []" by simp
  have dr_nth: "Daily_Return ?df ! t = NaN" if "t < 20" for t
    using that by (simp add: Daily_Return_nth)
  have dr: "Daily_Return ?df = replicate 20 NaN"
    by (intro nth_equalityI) (simp_all add: dr_nth)
  have "dropna (replicate 20 NaN) = []"
    using dropna_replicate_NaN[of 20 "[]"] by (simp add: dropna_def)
  then have vol: "std (Daily_Return ?df) = NaN"
    unfolding dr by (simp add: std_def var_def)
  have roc_nth: "calculate_roc ?df 12 ! t = NaN" if "t < 20" for t
    using that by (simp add: calculate_roc_def col_Close_def shift_nth fsub_def)
  have lr: "last (calculate_roc ?df 12) = NaN"
    using roc_nth[of 19] by (simp add: last_conv_nth[OF ne_of_length[OF length_bands(5) ne]])
  show ?thesis
    unfolding analyze_stock_nonempty[OF ne]
    by (simp add: dr_nth roc_nth vol lr)
qed

section \<open>C5: what the analysis does to the frame it is given\<close>




section \<open>C6: optional dates in the configuration\<close>

text \<open>
  Claim C6 says that \<open>start_date\<close> and \<open>end_date\<close> are optional: a configuration
  that omits them, or leaves them empty, passes validation and the run goes on with
  today as the end date and the day a year before as the start date.  For omitted keys
  the code does not do this.  \<^verbatim>\<open>validate_config\<close> lists both keys as required, so a
  configuration without them is refused (the first missing key is reported),
  \<^verbatim>\<open>load_config\<close> raises and \<^verbatim>\<open>investigate_finances\<close> returns False before any
  data is fetched; yet the defaulting step of \<^verbatim>\<open>investigate_finances\<close> tests for
  the very case of an absent key and would fill in both dates.
\<close>

theorem omitted_dates_fail_validation:
  "validate_config config_without_dates
     = Inl (ValueError ''Missing required configuration key: start_date'') \<and>
   load_config (\<lambda>encoding. Inr config_without_dates)
     = Inl (ValueError ''Missing required configuration key: start_date'') \<and>
   investigate_finances (\<lambda>encoding. Inr config_without_dates) ''2024-06-30'' ''2023-07-01''
     (\<lambda>case_details. True) = False \<and>
   default_dates ''2024-06-30'' ''2023-07-01'' config_without_dates ''start_date''
     = Some (YStr ''2023-07-01'') \<and>
   default_dates ''2024-06-30'' ''2023-07-01'' config_without_dates ''end_date''
     = Some (YStr ''2024-06-30'')"
proof -
  have v: "validate_config config_without_dates
     = Inl (ValueError ''Missing required configuration key: start_date'')"
    by (simp add: validate_config_def config_without_dates_def)
  have l: "load_config (\<lambda>encoding. Inr config_without_dates)
     = Inl (ValueError ''Missing required configuration key: start_date'')"
    by (simp add: load_config_def v)
  have i: "investigate_finances (\<lambda>encoding. Inr config_without_dates) ''2024-06-30'' ''2023-07-01''
     (\<lambda>case_details. True) = False"
    by (simp add: investigate_finances_def l)
  have d: "default_dates ''2024-06-30'' ''2023-07-01'' config_without_dates ''start_date''
     = Some (YStr ''2023-07-01'')"
    "default_dates ''2024-06-30'' ''2023-07-01'' config_without_dates ''end_date''
     = Some (YStr ''2024-06-30'')"
    by (simp_all add: default_dates_def missing_or_empty_def config_without_dates_def Let_def)
  from v l i d show ?thesis by (intro conjI)
qed

text \<open>
  The other half of the claim holds: with both keys present and empty (null, or the
  empty string), a configuration that is valid is loaded and the two defaults are
  filled in before the later stages run.
\<close>

lemma empty_dates_get_defaults:
  assumes "validate_config cfg = Inr ()"
    and "cfg ''start_date'' \<in> {Some YNull, Some (YStr '''')}"
    and "cfg ''end_date'' \<in> {Some YNull, Some (YStr '''')}"
  shows "load_config (\<lambda>encoding. Inr cfg) = Inr cfg \<and>
     investigate_finances (\<lambda>encoding. Inr cfg) today year_ago run
       = run (cfg(''end_date'' \<mapsto> YStr today, ''start_date'' \<mapsto> YStr year_ago))"
proof -
  have l: "load_config (\<lambda>encoding. Inr cfg) = Inr cfg"
    by (simp add: load_config_def assms(1))
  have "default_dates today year_ago cfg = cfg(''end_date'' \<mapsto> YStr today, ''start_date'' \<mapsto> YStr year_ago)"
    using assms(2,3) by (auto simp add: default_dates_def missing_or_empty_def Let_def)
  then show ?thesis by (simp add: investigate_finances_def l)
qed

lemma empty_dates_get_defaults_witness:
  "validate_config config_empty_dates = Inr () \<and>
   investigate_finances (\<lambda>encoding. Inr config_empty_dates) ''2024-06-30'' ''2023-07-01''
     (\<lambda>c. c ''start_date'' = Some (YStr ''2023-07-01'') \<and> c ''end_date'' = Some (YStr ''2024-06-30''))"
proof -
  have v: "validate_config config_empty_dates = Inr ()"
    by (simp add: validate_config_iff config_empty_dates_def)
  have s: "config_empty_dates ''start_date'' \<in> {Some YNull, Some (YStr '''')}"
    and e: "config_empty_dates ''end_date'' \<in> {Some YNull, Some (YStr '''')}"
    by (simp_all add: config_empty_dates_def)
  from empty_dates_get_defaults[OF v s e, of "''2024-06-30''" "''2023-07-01''"
      "\<lambda>c. c ''start_date'' = Some (YStr ''2023-07-01'') \<and> c ''end_date'' = Some (YStr ''2024-06-30'')"]
  show ?thesis using v by simp
qed

section \<open>C7: per-ticker fault isolation in the gatherer\<close>

text \<open>
  Claim C7.  For every list of tickers \<^verbatim>\<open>collect_evidence\<close> goes through all of
  them.  A ticker whose fetch fails (the provider raises, or returns an empty frame) is
  logged and left out; the tickers that yield data are exactly the keys of the
  dictionary returned, each with its own data.  \<^verbatim>\<open>collect_evidence\<close> raises if and
  only if no ticker yields data.
\<close>

theorem per_ticker_fault_isolation:
  "((\<exists>s\<in>set stocks. \<exists>entry. fetch_stock p now sd ed s = Inr entry) \<longrightarrow>
      (\<exists>ev. snd (collect_evidence p now stocks sd ed) = Inr ev \<and>
            distinct (map fst ev) \<and>
            fst ` set ev = {s \<in> set stocks. \<exists>entry. fetch_stock p now sd ed s = Inr entry} \<and>
            (\<forall>s\<in>set stocks. \<forall>entry. fetch_stock p now sd ed s = Inr entry \<longrightarrow>
                 map_of ev s = Some entry \<and> bars (price_data entry) \<noteq> []))) \<and>
   (\<not> (\<exists>s\<in>set stocks. \<exists>entry. fetch_stock p now sd ed s = Inr entry) \<longrightarrow>
      snd (collect_evidence p now stocks sd ed)
        = Inl (Exception ''No data could be retrieved for any of the stocks.'')) \<and>
   (\<forall>s\<in>set stocks. \<forall>e. fetch_stock p now sd ed s = Inl e \<longrightarrow>
      log_failure s e \<in> set (fst (collect_evidence p now stocks sd ed))) \<and>
   (\<forall>s e. history p s sd ed = Inl e \<longrightarrow> fetch_stock p now sd ed s = Inl e) \<and>
   (\<forall>s data. history p s sd ed = Inr data \<and> bars data = [] \<longrightarrow>
      fetch_stock p now sd ed s = Inl (ValueError (''No data available for '' @ s)))"
proof -
  let ?ev = "fst (collect_loop p now sd ed stocks ([], []))"
  let ?ok = "{s \<in> set stocks. \<exists>entry. fetch_stock p now sd ed s = Inr entry}"
  have keys: "fst ` set ?ev = ?ok" by (rule locker_keys)
  have dist: "distinct (map fst ?ev)" by (rule collect_loop_distinct) simp
  have look: "map_of ?ev s = Some entry \<and> bars (price_data entry) \<noteq> []"
    if "s \<in> set stocks" "fetch_stock p now sd ed s = Inr entry" for s entry
    using that by (simp add: collect_loop_map fetch_stock_nonempty)
  have some: "snd (collect_evidence p now stocks sd ed) = Inr ?ev" if "?ok \<noteq> {}"
  proof -
    have "?ev \<noteq> []" using keys that by auto
    then show ?thesis by (simp add: collect_evidence_snd)
  qed
  have none: "snd (collect_evidence p now stocks sd ed)
        = Inl (Exception ''No data could be retrieved for any of the stocks.'')" if "?ok = {}"
  proof -
    have "fst ` set ?ev = {}" using keys that by simp
    then have "?ev = []" by simp
    then show ?thesis by (simp add: collect_evidence_snd)
  qed
  have logged: "log_failure s e \<in> set (fst (collect_evidence p now stocks sd ed))"
    if "s \<in> set stocks" "fetch_stock p now sd ed s = Inl e" for s e
    unfolding collect_evidence_fst collect_loop_log using that by force
  have c1: "(\<exists>s\<in>set stocks. \<exists>entry. fetch_stock p now sd ed s = Inr entry) \<longrightarrow>
      (\<exists>ev. snd (collect_evidence p now stocks sd ed) = Inr ev \<and>
            distinct (map fst ev) \<and> fst ` set ev = ?ok \<and>
            (\<forall>s\<in>set stocks. \<forall>entry. fetch_stock p now sd ed s = Inr entry \<longrightarrow>
                 map_of ev s = Some entry \<and> bars (price_data entry) \<noteq> []))"
  proof
    assume "\<exists>s\<in>set stocks. \<exists>entry. fetch_stock p now sd ed s = Inr entry"
    then have "?ok \<noteq> {}" by blast
    from some[OF this] dist keys look show "\<exists>ev. snd (collect_evidence p now stocks sd ed) = Inr ev \<and>
            distinct (map fst ev) \<and> fst ` set ev = ?ok \<and>
            (\<forall>s\<in>set stocks. \<forall>entry. fetch_stock p now sd ed s = Inr entry \<longrightarrow>
                 map_of ev s = Some entry \<and> bars (price_data entry) \<noteq> [])"
      by blast
  qed
  have c2: "\<not> (\<exists>s\<in>set stocks. \<exists>entry. fetch_stock p now sd ed s = Inr entry) \<longrightarrow>
      snd (collect_evidence p now stocks sd ed)
        = Inl (Exception ''No data could be retrieved for any of the stocks.'')"
  proof
    assume "\<not> (\<exists>s\<in>set stocks. \<exists>entry. fetch_stock p now sd ed s = Inr entry)"
    then have "?ok = {}" by blast
    then show "snd (collect_evidence p now stocks sd ed)
        = Inl (Exception ''No data could be retrieved for any of the stocks.'')"
      by (rule none)
  qed
  have c3: "\<forall>s\<in>set stocks. \<forall>e. fetch_stock p now sd ed s = Inl e \<longrightarrow>
      log_failure s e \<in> set (fst (collect_evidence p now stocks sd ed))"
    using logged by blast
  have c4: "\<forall>s e. history p s sd ed = Inl e \<longrightarrow> fetch_stock p now sd ed s = Inl e"
    using fetch_stock_history_fails by blast
  have c5: "\<forall>s data. history p s sd ed = Inr data \<and> bars data = [] \<longrightarrow>
      fetch_stock p now sd ed s = Inl (ValueError (''No data available for '' @ s))"
    using fetch_stock_empty_data by blast
  from c1 c2 c3 c4 c5 show ?thesis by (intro conjI)
qed

text \<open>
  Three tickers, the second of which fails: the result holds exactly the other two, and
  the failure is in the log.
\<close>

theorem per_ticker_fault_isolation_witness:
  "(\<exists>ev. snd (collect_evidence example_provider 0 [''AAA'', ''BBB'', ''CCC''] ''2023-01-01'' ''2024-01-01'')
           = Inr ev \<and>
         fst ` set ev = {''AAA'', ''CCC''} \<and> map_of ev ''CCC'' = Some doubling) \<and>
   NetworkError ''BBB''
     \<in> set (fst (collect_evidence example_provider 0 [''AAA'', ''BBB'', ''CCC''] ''2023-01-01'' ''2024-01-01''))"
proof -
  let ?f = "fetch_stock example_provider 0 ''2023-01-01'' ''2024-01-01''"
  let ?stocks = "[''AAA'', ''BBB'', ''CCC'']"
  note th = per_ticker_fault_isolation[of ?stocks example_provider 0 "''2023-01-01''" "''2024-01-01''"]
  have ok: "\<exists>s\<in>set ?stocks. \<exists>entry. ?f s = Inr entry"
    by (simp add: fetch_example)
  have keys: "{s \<in> set ?stocks. \<exists>entry. ?f s = Inr entry} = {''AAA'', ''CCC''}"
    by (auto simp add: fetch_example)
  from th[THEN conjunct1] ok obtain ev where
    ev: "snd (collect_evidence example_provider 0 ?stocks ''2023-01-01'' ''2024-01-01'') = Inr ev"
      "fst ` set ev = {s \<in> set ?stocks. \<exists>entry. ?f s = Inr entry}"
      "\<forall>s\<in>set ?stocks. \<forall>entry. ?f s = Inr entry \<longrightarrow>
          map_of ev s = Some entry \<and> bars (price_data entry) \<noteq> []"
    by blast
  from ev(3) have ccc: "map_of ev ''CCC'' = Some doubling"
    by (simp add: fetch_example)
  from th[THEN conjunct2, THEN conjunct2, THEN conjunct1]
  have "log_failure ''BBB'' RequestException
      \<in> set (fst (collect_evidence example_provider 0 ?stocks ''2023-01-01'' ''2024-01-01''))"
    by (simp add: fetch_example)
  then show ?thesis
    using ev(1) ev(2) ccc unfolding keys by simp
qed

section \<open>C8: the keys of the analysis set\<close>

text \<open>
  Claim C8, amended.  For every evidence dictionary (keys distinct, as in any
  dictionary) in which every price frame has at least one row, which is what
  \<^verbatim>\<open>collect_evidence\<close> returns (see \<open>collect_evidence_rows\<close>), \<^verbatim>\<open>analyze_clues\<close>
  returns a dictionary with exactly the keys of the input, each ticker mapped to the
  result \<^verbatim>\<open>analyze_stock\<close> gives for that ticker's data.  A result is stored under its
  ticker, so storing the results in any other order gives the same mapping.
\<close>

theorem analyze_clues_keys:
  assumes keys: "distinct (map fst ev)"
    and rows: "\<forall>item\<in>set ev. bars (price_data (snd item)) \<noteq> []"
  shows "\<exists>results m.
     pool_map (\<lambda>item. snd (analyze_stock item)) ev = Inr results \<and>
     analyze_clues ev = Inr m \<and>
     distinct (map fst m) \<and>
     fst ` set m = fst ` set ev \<and>
     (\<forall>item\<in>set ev. \<exists>r. snd (analyze_stock item) = Inr (fst item, r) \<and> map_of m (fst item) = Some r) \<and>
     (\<forall>results'. mset results' = mset results \<longrightarrow> map_of (store_results [] results') = map_of m)"
proof -
  let ?f = "\<lambda>item. snd (analyze_stock item)"
  let ?results = "map (\<lambda>item. projr (?f item)) ev"
  let ?m = "store_results [] ?results"
  have each: "?f item = Inr (projr (?f item)) \<and> fst (projr (?f item)) = fst item"
    if "item \<in> set ev" for item
  proof -
    from rows that have "bars (price_data (snd item)) \<noteq> []" by blast
    from analyze_stock_item[OF this] obtain r where "?f item = Inr (fst item, r)" by blast
    then show ?thesis by simp
  qed
  have pm: "pool_map ?f ev = Inr ?results"
    by (rule pool_map_all_ok) (use each in blast)
  have ac: "analyze_clues ev = Inr ?m"
    by (simp add: analyze_clues_def pm)
  have fsts: "map fst ?results = map fst ev"
    using each by simp
  have dres: "distinct (map fst ?results)"
    unfolding fsts by (rule keys)
  have same: "map_of (store_results [] results') = map_of ?results"
    if "mset results' = mset ?results" for results'
    using dres that by (rule store_results_reordered)
  have mres: "map_of ?m = map_of ?results"
    by (rule same) simp
  have dm: "distinct (map fst ?m)"
    by (rule store_results_distinct) simp
  have "fst ` set ?m = dom (map_of ?m)" by (simp add: dom_map_of_conv_image_fst)
  also have "\<dots> = fst ` set ?results" unfolding mres by (simp add: dom_map_of_conv_image_fst)
  also have "\<dots> = fst ` set ev" using fsts by (metis list.set_map)
  finally have km: "fst ` set ?m = fst ` set ev" .
  have look: "\<exists>r. ?f item = Inr (fst item, r) \<and> map_of ?m (fst item) = Some r"
    if "item \<in> set ev" for item
  proof -
    from rows that have "bars (price_data (snd item)) \<noteq> []" by blast
    from analyze_stock_item[OF this] obtain r where e: "?f item = Inr (fst item, r)" by blast
    then have pr: "projr (?f item) = (fst item, r)" by simp
    have "projr (?f item) \<in> set ?results" using that by simp
    then have "(fst item, r) \<in> set ?results" by (simp only: pr)
    then have "map_of ?results (fst item) = Some r"
      using dres by (rule_tac map_of_is_SomeI)
    then show ?thesis using e mres by auto
  qed
  show ?thesis
  proof (rule exI[of _ ?results], rule exI[of _ ?m], intro conjI)
    show "pool_map ?f ev = Inr ?results" by (rule pm)
    show "analyze_clues ev = Inr ?m" by (rule ac)
    show "distinct (map fst ?m)" by (rule dm)
    show "fst ` set ?m = fst ` set ev" by (rule km)
    show "\<forall>item\<in>set ev. \<exists>r. ?f item = Inr (fst item, r) \<and> map_of ?m (fst item) = Some r"
      using look by blast
    show "\<forall>results'. mset results' = mset ?results \<longrightarrow> map_of (store_results [] results') = map_of ?m"
      using same mres by simp
  qed
qed

text \<open>An evidence dictionary of two tickers.\<close>

theorem analyze_clues_keys_witness:
  "distinct (map fst [(''AAA'', doubling), (''CCC'', rising)]) \<and>
   (\<exists>m. analyze_clues [(''AAA'', doubling), (''CCC'', rising)] = Inr m \<and>
        fst ` set m = {''AAA'', ''CCC''} \<and>
        (\<exists>r. snd (analyze_stock (''CCC'', rising)) = Inr (''CCC'', r) \<and> map_of m ''CCC'' = Some r))"
proof -
  let ?ev = "[(''AAA'', doubling), (''CCC'', rising)]"
  have keys: "distinct (map fst ?ev)" by simp
  have rows: "\<forall>item\<in>set ?ev. bars (price_data (snd item)) \<noteq> []"
    by (simp add: doubling_def frame_of_def bars_rising)
  from analyze_clues_keys[OF keys rows] obtain m where
    m: "analyze_clues ?ev = Inr m" "fst ` set m = fst ` set ?ev"
      "\<forall>item\<in>set ?ev. \<exists>r. snd (analyze_stock item) = Inr (fst item, r) \<and> map_of m (fst item) = Some r"
    by blast
  from m(3) have "\<exists>r. snd (analyze_stock (''CCC'', rising)) = Inr (''CCC'', r) \<and> map_of m ''CCC'' = Some r"
    by simp
  then show ?thesis using keys m(1) m(2) by simp
qed

text \<open>
  The claim as first stated, for every evidence dictionary, fails when a price frame has
  no row: \<^verbatim>\<open>analyze_stock\<close> raises IndexError for that ticker, the pool passes the
  exception on, and \<^verbatim>\<open>analyze_clues\<close> returns nothing, not even for the other
  tickers.
\<close>

theorem empty_frame_aborts_counterexample:
  "distinct (map fst [(''AAA'', doubling), (''EMPTY'', frame_of [])]) \<and>
   analyze_clues [(''AAA'', doubling), (''EMPTY'', frame_of [])] = Inl IndexError"
proof -
  have a: "\<exists>r. snd (analyze_stock (''AAA'', doubling)) = Inr (''AAA'', r)"
    using analyze_stock_item[of "(''AAA'', doubling)"] by (simp add: doubling_def frame_of_def)
  have e: "snd (analyze_stock (''EMPTY'', frame_of [])) = Inl IndexError"
    by (rule analyze_stock_empty) (simp add: frame_of_def)
  from a e show ?thesis
    by (auto simp add: analyze_clues_def)
qed

section \<open>C9: what the report compiler returns\<close>




section \<open>C10: the True Range of the first bar\<close>

text \<open>
  Claim C10.  For every non-empty price series the True Range at the first bar is
  \<open>high[0] - low[0]\<close>: the two terms with the previous close are NaN there and the
  row maximum skips them.  So the 14-period rolling mean of the True Range is NaN at
  the indices 0 to 12 and a number from index 13 on (the mean of the 14 True Ranges
  ending there), and the \<open>atr\<close> that is returned is its last value.
\<close>

theorem true_range_first_bar:
  assumes "bars (price_data d) \<noteq> []"
  shows "high_close (price_data d) ! 0 = NaN \<and> low_close (price_data d) ! 0 = NaN \<and>
         true_range (price_data d) ! 0
           = Fin (High (bars (price_data d) ! 0) - Low (bars (price_data d) ! 0)) \<and>
         (\<forall>t < length (bars (price_data d)).
            ATR (price_data d) ! t
              = (if t < 13 then NaN else Fin ((\<Sum>i = t - 13..t. tr_value (price_data d) i) / 14))) \<and>
         (\<exists>r. snd (analyze_stock (s, d)) = Inr (s, r) \<and> atr r = last (ATR (price_data d)))"
proof -
  have pos: "0 < length (bars (price_data d))" using assms by simp
  show ?thesis
    using pos
    by (simp add: high_close_nth low_close_nth true_range_nth tr_value_def ATR_nth
        analyze_stock_nonempty[OF assms] Let_def)
qed

text \<open>On the rising example every True Range is 2, and so is the ATR from index 13 on.\<close>

theorem true_range_first_bar_witness:
  "bars (price_data rising) \<noteq> [] \<and>
   true_range (price_data rising) ! 0 = Fin 2 \<and>
   ATR (price_data rising) ! 12 = NaN \<and>
   ATR (price_data rising) ! 13 = Fin 2 \<and>
   (case snd (analyze_stock (''UP'', rising)) of Inl e \<Rightarrow> False | Inr (s, r) \<Rightarrow> atr r = Fin 2)"
proof -
  have ne: "bars (price_data rising) \<noteq> []"
    by (simp add: bars_rising)
  note th = true_range_first_bar[OF ne, of "''UP''"]
  have tr0: "true_range (price_data rising) ! 0 = Fin 2"
    using th by (simp add: bars_rising_nth bar_def)
  have all: "\<forall>t<30. ATR (price_data rising) ! t
      = (if t < 13 then NaN else Fin ((\<Sum>i = t - 13..t. tr_value (price_data rising) i) / 14))"
    using th by simp
  have sum2: "(\<Sum>i = t - 13..t. tr_value (price_data rising) i) = 28" if "13 \<le> t" "t < 30" for t
  proof -
    have "(\<Sum>i = t - 13..t. tr_value (price_data rising) i) = (\<Sum>i = t - 13..t. 2)"
      using that by (intro sum.cong) (auto simp add: tr_value_rising)
    also have "\<dots> = 28" using that by simp
    finally show ?thesis .
  qed
  have a12: "ATR (price_data rising) ! 12 = NaN" using all by simp
  have a13: "ATR (price_data rising) ! 13 = Fin 2" using all sum2[of 13] by simp
  have a29: "ATR (price_data rising) ! 29 = Fin 2" using all sum2[of 29] by simp
  have lst: "last (ATR (price_data rising)) = ATR (price_data rising) ! 29"
    by (rule last_conv_len[OF ne_of_length[OF length_ATR ne]]) simp
  from th obtain r where r: "snd (analyze_stock (''UP'', rising)) = Inr (''UP'', r)"
      "atr r = last (ATR (price_data rising))"
    by blast
  show ?thesis
    using ne tr0 a12 a13 r lst a29 by simp
qed

end
